theory Spec2Isabelle
  imports Main "HOL-Library.Sublist"
begin

section \<open>Shapefile reprojection service: embedding of app.py\<close>

text \<open>
  The program is a thin layer of file-system bookkeeping and request handling over
  geopandas, pyproj, zipfile and werkzeug. The embedding makes the file system, the
  counter of \<open>tempfile.mkdtemp\<close>, the dictionary \<open>temp_file_store\<close> and the output of
  \<open>print\<close> an explicit state, passes that state through every function, and returns
  every exception as a value. The geospatial library, the CRS parser and
  \<open>secure_filename\<close> are parameters (a record of functions).
\<close>

subsection \<open>Strings\<close>

text \<open>\<open>str.lower\<close> on the ASCII letters; the source uses it only to test ASCII suffixes.\<close>

definition char_lower :: "char \<Rightarrow> char" where
  "char_lower c =
     (let n = (of_char c :: nat) in if 65 \<le> n \<and> n \<le> 90 then char_of (n + 32) else c)"

definition lower :: "string \<Rightarrow> string" where
  "lower s = map char_lower s"

text \<open>\<open>s.endswith(suf)\<close>.\<close>

definition endswith :: "string \<Rightarrow> string \<Rightarrow> bool" where
  "endswith s suf = (length suf \<le> length s \<and> drop (length s - length suf) s = suf)"

text \<open>\<open>sep.join(xs)\<close>.\<close>

fun str_join :: "string \<Rightarrow> string list \<Rightarrow> string" where
  "str_join sep [] = []"
| "str_join sep [x] = x"
| "str_join sep (x # y # ys) = x @ sep @ str_join sep (y # ys)"

text \<open>\<open>s.replace(c, '')\<close> for a single character \<open>c\<close>: every occurrence is removed.\<close>

definition remove_char :: "char \<Rightarrow> string \<Rightarrow> string" where
  "remove_char c s = filter (\<lambda>x. x \<noteq> c) s"

text \<open>\<open>s.split('/')\<close>: the components of a name between separators.\<close>

fun split_sep :: "string \<Rightarrow> string list" where
  "split_sep [] = [[]]"
| "split_sep (c # cs) =
     (if c = CHR ''/'' then [] # split_sep cs
      else (case split_sep cs of [] \<Rightarrow> [[c]] | x # xs \<Rightarrow> (c # x) # xs))"

text \<open>
  \<open>os.path.splitext\<close> on a file name (\<open>genericpath._splitext\<close>): the extension starts
  at the last dot, unless only dots come before it.
\<close>

definition splitext :: "string \<Rightarrow> string \<times> string" where
  "splitext p =
     (let ext = rev (takeWhile (\<lambda>c. c \<noteq> CHR ''.'') (rev p));
          root_dot = take (length p - length ext) p
      in if root_dot = [] then (p, [])
         else let root = butlast root_dot
              in if list_all (\<lambda>c. c = CHR ''.'') root then (p, [])
                 else (root, CHR ''.'' # ext))"

subsection \<open>Exceptions\<close>

text \<open>The exception classes the program raises or tells apart; the string is \<open>str(e)\<close>.\<close>

datatype exn =
    ValueError string
  | FileNotFoundError string
  | FileExistsError string
  | NotADirectoryError string
  | IsADirectoryError string
  | BadZipFile string
  | KeyError string
  | OtherError string

fun exn_str :: "exn \<Rightarrow> string" where
  "exn_str (ValueError s) = s"
| "exn_str (FileNotFoundError s) = s"
| "exn_str (FileExistsError s) = s"
| "exn_str (NotADirectoryError s) = s"
| "exn_str (IsADirectoryError s) = s"
| "exn_str (BadZipFile s) = s"
| "exn_str (KeyError s) = s"
| "exn_str (OtherError s) = s"

text \<open>\<open>except (ValueError, FileNotFoundError)\<close>.\<close>

fun is_value_or_fnf :: "exn \<Rightarrow> bool" where
  "is_value_or_fnf (ValueError s) = True"
| "is_value_or_fnf (FileNotFoundError s) = True"
| "is_value_or_fnf e = False"

subsection \<open>Files, archives and the file system\<close>

text \<open>
  A file holds raw bytes or is a zip archive, given by its members in order. A member is
  a file, a directory entry, or a member whose data is damaged (its extraction raises
  \<open>BadZipFile\<close> although the archive passes \<open>is_zipfile\<close>).
\<close>

datatype 'a member = MFile 'a | MDir | MBad

datatype blob = Raw string | Zip "(string \<times> blob member) list"

datatype node = File blob | Dir

text \<open>
  Every path of the program lies in a directory made by \<open>tempfile.mkdtemp\<close>. A path is
  the number of that scratch directory and the components below it; \<open>(d, [])\<close> is the
  scratch directory itself. The file system lists the existing paths in the order in
  which they were created.
\<close>

type_synonym fpath = "nat \<times> string list"
type_synonym fsys = "(fpath \<times> node) list"

definition exists :: "fsys \<Rightarrow> fpath \<Rightarrow> bool" where
  "exists fs p = (map_of fs p \<noteq> None)"

definition isfile :: "fsys \<Rightarrow> fpath \<Rightarrow> bool" where
  "isfile fs p = (case map_of fs p of Some (File b) \<Rightarrow> True | _ \<Rightarrow> False)"

definition isdir :: "fsys \<Rightarrow> fpath \<Rightarrow> bool" where
  "isdir fs p = (map_of fs p = Some Dir)"

text \<open>
  \<open>os.path.join(p, name)\<close> for a relative \<open>name\<close> (the program never joins an
  absolute one): the components of \<open>name\<close> follow those of \<open>p\<close>.
\<close>

definition join :: "fpath \<Rightarrow> string \<Rightarrow> fpath" where
  "join p name = (fst p, snd p @ split_sep name)"

text \<open>\<open>os.path.basename\<close>: the last component.\<close>

definition basename :: "fpath \<Rightarrow> string" where
  "basename p = (if snd p = [] then [] else last (snd p))"

definition parent :: "fpath \<Rightarrow> fpath" where
  "parent p = (fst p, butlast (snd p))"

text \<open>
  String operations on a whole path that only concern its last component, because the
  text they look at contains no separator: a suffix test, \<open>os.path.splitext(p)[0]\<close> and
  \<open>p + ext\<close>.
\<close>

definition path_endswith :: "fpath \<Rightarrow> string \<Rightarrow> bool" where
  "path_endswith p suf = endswith (lower (basename p)) suf"

definition splitext_root :: "fpath \<Rightarrow> fpath" where
  "splitext_root p =
     (if snd p = [] then p else (fst p, butlast (snd p) @ [fst (splitext (last (snd p)))]))"

definition path_add :: "fpath \<Rightarrow> string \<Rightarrow> fpath" where
  "path_add p ext =
     (if snd p = [] then (fst p, [ext]) else (fst p, butlast (snd p) @ [last (snd p) @ ext]))"

text \<open>\<open>p\<close> is \<open>d\<close> or lies below it.\<close>

definition inside :: "fpath \<Rightarrow> fpath \<Rightarrow> bool" where
  "inside d p = (fst p = fst d \<and> take (length (snd d)) (snd p) = snd d)"

text \<open>The names directly below \<open>d\<close>, in creation order.\<close>

definition dir_names :: "fsys \<Rightarrow> fpath \<Rightarrow> string list" where
  "dir_names fs d =
     map (\<lambda>(p, n). last (snd p))
       (filter (\<lambda>(p, n). fst p = fst d \<and> snd p \<noteq> [] \<and> butlast (snd p) = snd d) fs)"

text \<open>
  \<open>os.listdir(d)\<close>: the names directly below \<open>d\<close>, in an order that the
  operating system chooses and Python leaves unspecified. The order is a parameter: a
  function that arranges the names of a directory.
\<close>

definition listdir :: "(string list \<Rightarrow> string list) \<Rightarrow> fsys \<Rightarrow> fpath \<Rightarrow> string list" where
  "listdir order fs d = order (dir_names fs d)"

text \<open>Storing a node at a path: an existing entry is replaced, a new one is appended.\<close>

fun put :: "fsys \<Rightarrow> fpath \<Rightarrow> node \<Rightarrow> fsys" where
  "put [] p n = [(p, n)]"
| "put ((q, m) # fs) p n = (if q = p then (p, n) # fs else (q, m) # put fs p n)"

text \<open>
  Opening a file for writing and writing it: the parent must be an existing directory
  and the path itself must not be a directory.
\<close>

definition write_file :: "fsys \<Rightarrow> fpath \<Rightarrow> blob \<Rightarrow> exn + fsys" where
  "write_file fs p b =
     (if \<not> isdir fs (parent p) \<or> snd p = []
      then (if snd p = [] \<or> isdir fs p then Inl (IsADirectoryError ''Is a directory'')
            else if exists fs (parent p) then Inl (NotADirectoryError ''Not a directory'')
            else Inl (FileNotFoundError ''No such file or directory''))
      else if isdir fs p then Inl (IsADirectoryError ''Is a directory'')
      else Inr (put fs p (File b)))"

text \<open>
  \<open>os.makedirs(p, exist_ok=True)\<close> below an existing scratch directory: missing
  directories are created from the top; a file in the way raises.
\<close>

fun makedirs_from :: "fsys \<Rightarrow> nat \<Rightarrow> string list \<Rightarrow> string list \<Rightarrow> exn + fsys" where
  "makedirs_from fs d pre [] = Inr fs"
| "makedirs_from fs d pre (c # cs) =
     (let p = (d, pre @ [c]) in
      case map_of fs p of
        None \<Rightarrow> makedirs_from (put fs p Dir) d (pre @ [c]) cs
      | Some Dir \<Rightarrow> makedirs_from fs d (pre @ [c]) cs
      | Some (File b) \<Rightarrow>
          (if cs = [] then Inl (FileExistsError ''File exists'')
           else Inl (NotADirectoryError ''Not a directory'')))"

definition makedirs :: "fsys \<Rightarrow> fpath \<Rightarrow> exn + fsys" where
  "makedirs fs p = makedirs_from fs (fst p) [] (snd p)"

text \<open>
  \<open>shutil.rmtree(d)\<close>: the directory and everything below it is removed; a path that
  does not exist, or is a file, raises.
\<close>

definition rmtree :: "fsys \<Rightarrow> fpath \<Rightarrow> exn + fsys" where
  "rmtree fs d =
     (case map_of fs d of
        None \<Rightarrow> Inl (FileNotFoundError ''No such file or directory'')
      | Some (File b) \<Rightarrow> Inl (NotADirectoryError ''Not a directory'')
      | Some Dir \<Rightarrow> Inr (filter (\<lambda>(p, n). \<not> inside d p) fs))"

subsection \<open>Zip archives\<close>

text \<open>\<open>zipfile.is_zipfile(p)\<close>.\<close>

definition is_zipfile :: "fsys \<Rightarrow> fpath \<Rightarrow> bool" where
  "is_zipfile fs p = (case map_of fs p of Some (File (Zip ms)) \<Rightarrow> True | _ \<Rightarrow> False)"

text \<open>
  \<open>ZipFile.extractall(dir)\<close>, member by member. The member name is split at the
  separators and the components \<open>''\<close>, \<open>.\<close> and \<open>..\<close> are dropped, as
  \<open>ZipFile._extract_member\<close> does; the directories above the member are created; a
  damaged member raises. What was extracted before an exception stays on disk.
\<close>

definition member_path :: "string \<Rightarrow> string list" where
  "member_path name =
     filter (\<lambda>c. c \<noteq> [] \<and> c \<noteq> ''.'' \<and> c \<noteq> ''..'') (split_sep name)"

definition extract_member :: "fsys \<Rightarrow> fpath \<Rightarrow> string \<Rightarrow> blob member \<Rightarrow> exn + fsys" where
  "extract_member fs dir name m =
     (let comps = member_path name in
      case m of
        MDir \<Rightarrow> makedirs_from fs (fst dir) (snd dir) comps
      | MBad \<Rightarrow> Inl (BadZipFile ''Bad CRC-32'')
      | MFile b \<Rightarrow>
          (case makedirs_from fs (fst dir) (snd dir) (butlast comps) of
             Inl e \<Rightarrow> Inl e
           | Inr fs1 \<Rightarrow>
               (if comps = [] then Inl (IsADirectoryError ''Is a directory'')
                else write_file fs1 (fst dir, snd dir @ comps) b)))"

fun extract_members :: "fsys \<Rightarrow> fpath \<Rightarrow> (string \<times> blob member) list \<Rightarrow> exn option \<times> fsys" where
  "extract_members fs dir [] = (None, fs)"
| "extract_members fs dir ((name, m) # ms) =
     (case extract_member fs dir name m of
        Inl e \<Rightarrow> (Some e, fs)
      | Inr fs1 \<Rightarrow> extract_members fs1 dir ms)"

definition extractall :: "fsys \<Rightarrow> fpath \<Rightarrow> fpath \<Rightarrow> exn option \<times> fsys" where
  "extractall fs zip_path dir =
     (case map_of fs zip_path of
        Some (File (Zip ms)) \<Rightarrow> extract_members fs dir ms
      | _ \<Rightarrow> (Some (BadZipFile ''File is not a zip file''), fs))"

subsection \<open>Program state and libraries\<close>

text \<open>An entry of \<open>temp_file_store\<close>: the dictionary with keys \<open>path\<close> and \<open>temp_dirs\<close>.\<close>

record transfer =
  path :: fpath
  temp_dirs :: "fpath list"

text \<open>
  The state: the file system, the counter of \<open>mkdtemp\<close>, the dictionary
  \<open>temp_file_store\<close>, the lines printed, and the order in which the operating system
  lists a directory (which no function changes).
\<close>

record world =
  disk :: fsys
  next_tmp :: nat
  temp_file_store :: "string \<rightharpoonup> transfer"
  stdout :: "string list"
  dir_order :: "string list \<Rightarrow> string list"

text \<open>\<open>tempfile.mkdtemp()\<close>: a new, empty directory that did not exist before.\<close>

definition mkdtemp :: "world \<Rightarrow> fpath \<times> world" where
  "mkdtemp w =
     (let d = (next_tmp w, []) in
      (d, w\<lparr>disk := put (disk w) d Dir, next_tmp := next_tmp w + 1\<rparr>))"

text \<open>
  The libraries the program calls, as parameters: \<open>pyproj.CRS(s)\<close> (which raises on
  a string that is not a coordinate reference system), werkzeug's \<open>secure_filename\<close>,
  and of geopandas \<open>read_file\<close>, the attribute \<open>crs\<close> of a layer (\<open>None\<close> when the
  layer declares none), \<open>to_crs\<close>, and \<open>to_file\<close>, which yields the files it writes
  beside the path it is given, by name.
\<close>

record 'g lib =
  CRS :: "string \<Rightarrow> exn + unit"
  secure_filename :: "string \<Rightarrow> string"
  read_file :: "fsys \<Rightarrow> fpath \<Rightarrow> exn + 'g"
  crs :: "'g \<Rightarrow> string option"
  to_crs :: "'g \<Rightarrow> string \<Rightarrow> exn + 'g"
  to_file :: "'g \<Rightarrow> string \<Rightarrow> exn + (string \<times> blob) list"

text \<open>The files of \<open>to_file\<close> are written into the directory of the output path.\<close>

fun write_files :: "fsys \<Rightarrow> fpath \<Rightarrow> (string \<times> blob) list \<Rightarrow> exn + fsys" where
  "write_files fs dir [] = Inr fs"
| "write_files fs dir ((name, b) # xs) =
     (case write_file fs (join dir name) b of
        Inl e \<Rightarrow> Inl e
      | Inr fs1 \<Rightarrow> write_files fs1 dir xs)"

subsection \<open>check_shapefile_completeness\<close>

text \<open>The body of the \<open>try\<close> block, after \<open>temp_dir\<close> was created.\<close>

definition check_extracted :: "fpath \<Rightarrow> fpath \<Rightarrow> world \<Rightarrow> (exn + fpath \<times> fpath) \<times> world" where
  "check_extracted zip_path temp_dir w =
     (case extractall (disk w) zip_path temp_dir of
        (Some e, fs1) \<Rightarrow> (Inl e, w\<lparr>disk := fs1\<rparr>)
      | (None, fs1) \<Rightarrow>
          (let w1 = w\<lparr>disk := fs1\<rparr>;
               shp_files = filter (\<lambda>f. endswith (lower f) ''.shp'') (listdir (dir_order w) fs1 temp_dir)
           in case shp_files of
                [] \<Rightarrow> (Inl (FileNotFoundError ''No .shp file found in the zipped folder.''), w1)
              | f # rest \<Rightarrow>
                  (let shp_path = join temp_dir f;
                       base_name = splitext_root shp_path;
                       required_exts = [''.shp'', ''.shx'', ''.dbf'', ''.prj''];
                       missing = filter (\<lambda>ext. \<not> exists fs1 (path_add base_name ext)) required_exts
                   in if missing \<noteq> []
                      then (Inl (FileNotFoundError
                              (''Incomplete shapefile. Missing: '' @ str_join '', '' missing)), w1)
                      else (Inr (shp_path, temp_dir), w1))))"

definition check_shapefile_completeness :: "fpath \<Rightarrow> world \<Rightarrow> (exn + fpath \<times> fpath) \<times> world" where
  "check_shapefile_completeness zip_path w =
     (if \<not> path_endswith zip_path ''.zip''
      then (Inl (ValueError ''Input must be a zipped shapefile''), w)
      else if \<not> is_zipfile (disk w) zip_path
      then (Inl (ValueError ''The provided file is not a valid zip archive.''), w)
      else
        (let (temp_dir, w1) = mkdtemp w in
         case check_extracted zip_path temp_dir w1 of
           (Inr r, w2) \<Rightarrow> (Inr r, w2)
         | (Inl e, w2) \<Rightarrow>
             (case rmtree (disk w2) temp_dir of
                Inl e' \<Rightarrow> (Inl e', w2)
              | Inr fs3 \<Rightarrow> (Inl e, w2\<lparr>disk := fs3\<rparr>))))"

subsection \<open>reproject_shapefile\<close>

text \<open>
  \<open>zf.write(full_path, basename)\<close> for every regular file of \<open>out_dir\<close>: the members
  of the output archive.
\<close>

definition zip_members ::
  "(string list \<Rightarrow> string list) \<Rightarrow> fsys \<Rightarrow> fpath \<Rightarrow> (string \<times> blob member) list" where
  "zip_members order fs out_dir =
     concat (map (\<lambda>file. case map_of fs (join out_dir file) of
                           Some (File b) \<Rightarrow> [(basename (join out_dir file), MFile b)]
                         | _ \<Rightarrow> [])
                 (listdir order fs out_dir))"

text \<open>The body of the \<open>try\<close> block after the call of \<open>check_shapefile_completeness\<close>.\<close>

definition reproject_steps ::
  "'g lib \<Rightarrow> fpath \<Rightarrow> fpath \<Rightarrow> string \<Rightarrow> world \<Rightarrow> (exn + fpath \<times> fpath \<times> fpath) \<times> world" where
  "reproject_steps L shp_path temp_dir target_crs w =
     (case read_file L (disk w) shp_path of
        Inl e \<Rightarrow> (Inl e, w)
      | Inr gdf \<Rightarrow>
          (if crs L gdf = None
           then (Inl (ValueError ''No CRS information found in shapefile.''), w)
           else case to_crs L gdf target_crs of
             Inl e \<Rightarrow> (Inl e, w)
           | Inr gdf1 \<Rightarrow>
               (let out_dir = join temp_dir ''reprojected'' in
                case makedirs (disk w) out_dir of
                  Inl e \<Rightarrow> (Inl e, w)
                | Inr fs1 \<Rightarrow>
                    (let out_shp = join out_dir (basename shp_path) in
                     case to_file L gdf1 (basename out_shp) of
                       Inl e \<Rightarrow> (Inl e, w\<lparr>disk := fs1\<rparr>)
                     | Inr files \<Rightarrow>
                         (case write_files fs1 (parent out_shp) files of
                            Inl e \<Rightarrow> (Inl e, w\<lparr>disk := fs1\<rparr>)
                          | Inr fs2 \<Rightarrow>
                              (let (temp_output_dir, w3) = mkdtemp (w\<lparr>disk := fs2\<rparr>);
                                   output_zip_path = join temp_output_dir
                                     (''reprojected_'' @ remove_char CHR '':'' target_crs @ ''.zip'')
                               in case write_file (disk w3) output_zip_path
                                         (Zip (zip_members (dir_order w3) (disk w3) out_dir)) of
                                    Inl e \<Rightarrow> (Inl e, w3)
                                  | Inr fs4 \<Rightarrow>
                                      (Inr (output_zip_path, temp_dir, temp_output_dir),
                                       w3\<lparr>disk := fs4\<rparr>)))))))"

definition reproject_shapefile ::
  "'g lib \<Rightarrow> fpath \<Rightarrow> string \<Rightarrow> world \<Rightarrow> (exn + fpath \<times> fpath \<times> fpath) \<times> world" where
  "reproject_shapefile L zip_path target_crs w =
     (case check_shapefile_completeness zip_path w of
        (Inl e, w1) \<Rightarrow> (Inl e, w1)
      | (Inr (shp_path, temp_dir), w1) \<Rightarrow>
          (case reproject_steps L shp_path temp_dir target_crs w1 of
             (Inr r, w2) \<Rightarrow> (Inr r, w2)
           | (Inl e, w2) \<Rightarrow>
               (if exists (disk w2) temp_dir
                then (case rmtree (disk w2) temp_dir of
                        Inl e' \<Rightarrow> (Inl e', w2)
                      | Inr fs3 \<Rightarrow> (Inl e, w2\<lparr>disk := fs3\<rparr>))
                else (Inl e, w2))))"

subsection \<open>Request handlers\<close>

text \<open>
  A request carries the multipart field \<open>file\<close> (its file name and content) when
  present, the form field \<open>target_crs\<close> when present, and the host URL.
\<close>

record upload =
  filename :: string
  content :: blob

record request =
  files_file :: "upload option"
  form_target_crs :: "string option"
  host_url :: string

text \<open>
  A response is a status with a JSON object (its keys and values in order), or a status
  with a file sent as an attachment under a name. An exception that leaves a handler is
  the left summand of the handler's result.
\<close>

datatype response =
    Json nat "(string \<times> string) list"
  | SendFile nat blob string

definition reproject_api :: "'g lib \<Rightarrow> request \<Rightarrow> world \<Rightarrow> (exn + response) \<times> world" where
  "reproject_api L request w =
     (case files_file request of
        None \<Rightarrow> (Inr (Json 400 [(''error'', ''No file part in the request'')]), w)
      | Some file \<Rightarrow>
          (if filename file = [] \<or> \<not> endswith (lower (filename file)) ''.zip''
           then (Inr (Json 400 [(''error'',
                   ''No selected file or invalid file type. Please upload a .zip file.'')]), w)
           else if form_target_crs request = None \<or> form_target_crs request = Some []
           then (Inr (Json 400 [(''error'',
                   ''Missing '' @ [CHR 0x27] @ ''target_crs'' @ [CHR 0x27] @ '' parameter'')]), w)
           else
             (let target_crs = the (form_target_crs request) in
              case CRS L target_crs of
                Inl e \<Rightarrow>
                  (Inr (Json 400 [(''error'',
                     ''Invalid target CRS: '' @ [CHR 0x27] @ target_crs @ [CHR 0x27]
                       @ ''. Example: EPSG:4326'')]), w)
              | Inr u \<Rightarrow>
                  (let (temp_upload_dir, w1) = mkdtemp w;
                       uploaded_file_path =
                         join temp_upload_dir (secure_filename L (filename file))
                   in case write_file (disk w1) uploaded_file_path (content file) of
                        Inl e \<Rightarrow> (Inl e, w1)
                      | Inr fs2 \<Rightarrow>
                          (case reproject_shapefile L uploaded_file_path target_crs
                                  (w1\<lparr>disk := fs2\<rparr>) of
                             (Inr (output_zip_path, temp_input_dir, temp_output_dir), w3) \<Rightarrow>
                               (let file_id = basename output_zip_path in
                                (Inr (Json 200
                                   [(''message'', ''Shapefile re-projected successfully''),
                                    (''download_link'',
                                       host_url request @ ''download_file/'' @ file_id)]),
                                 w3\<lparr>temp_file_store := (temp_file_store w3)(file_id \<mapsto>
                                       \<lparr>path = output_zip_path,
                                        temp_dirs = [temp_upload_dir, temp_input_dir,
                                                     temp_output_dir]\<rparr>)\<rparr>))
                           | (Inl e, w3) \<Rightarrow>
                               (case rmtree (disk w3) temp_upload_dir of
                                  Inl e' \<Rightarrow> (Inl e', w3)
                                | Inr fs4 \<Rightarrow>
                                    (if is_value_or_fnf e
                                     then (Inr (Json 400 [(''error'', exn_str e)]),
                                           w3\<lparr>disk := fs4\<rparr>)
                                     else (Inr (Json 500 [(''error'',
                                              ''An unexpected error occurred: '' @ exn_str e)]),
                                           w3\<lparr>disk := fs4\<rparr>))))))))"

text \<open>
  \<open>download_file\<close> returns the response and, when it sends the file, the callback
  registered with \<open>call_on_close\<close>: the closure \<open>cleanup_files\<close> over \<open>file_data\<close>
  and \<open>file_id\<close>.
\<close>

definition download_file ::
  "string \<Rightarrow> world \<Rightarrow> (exn + response) \<times> (transfer \<times> string) option" where
  "download_file file_id w =
     (case temp_file_store w file_id of
        None \<Rightarrow> (Inr (Json 404 [(''error'', ''File not found or has expired'')]), None)
      | Some file_data \<Rightarrow>
          (if \<not> exists (disk w) (path file_data)
           then (Inr (Json 404 [(''error'', ''File not found or has expired'')]), None)
           else
             (let file_path = path file_data in
              case map_of (disk w) file_path of
                Some (File b) \<Rightarrow>
                  (Inr (SendFile 200 b (basename file_path)), Some (file_data, file_id))
              | _ \<Rightarrow> (Inl (IsADirectoryError ''Is a directory''), None))))"



text \<open>
  One GET request on \<open>/download_file/<file_id>\<close> as the server handles it. A JSON
  response has no callback. The response of \<open>send_file\<close> is in direct passthrough
  mode: Werkzeug's \<open>Response.get_app_iter\<close> gives the server the file wrapper itself,
  the server closes that wrapper when the file is sent, and \<open>Response.close\<close> is never
  called. The function registered with \<open>call_on_close\<close> therefore does not run, and
  the request leaves the state as it was.
\<close>

definition download_request :: "string \<Rightarrow> world \<Rightarrow> (exn + response) \<times> world" where
  "download_request file_id w = (fst (download_file file_id w), w)"

subsection \<open>States the program can reach\<close>

text \<open>
  \<open>mkdtemp\<close> returns a directory that did not exist. With directories numbered by a
  counter this holds in every state in which all paths on disk lie in directories that
  were already handed out.
\<close>

definition disk_fresh :: "world \<Rightarrow> bool" where
  "disk_fresh w = list_all (\<lambda>(p, n). fst p < next_tmp w) (disk w)"

subsection \<open>Example inputs\<close>

text \<open>
  A stand-in for the libraries: a CRS string parses when it starts with \<open>EPSG:\<close> or
  \<open>PROJCS\<close>; a layer is its declared CRS, read from the \<open>.prj\<close> file beside the
  \<open>.shp\<close> file (an empty file declares none); \<open>to_file\<close> writes the four files of
  the bundle, the \<open>.prj\<close> file holding the CRS of the layer.
\<close>

definition demo_lib :: "string option lib" where
  "demo_lib = \<lparr>
     CRS = (\<lambda>s. if take 5 s = ''EPSG:'' \<or> take 6 s = ''PROJCS'' then Inr ()
                 else Inl (OtherError ''Invalid projection'')),
     secure_filename = (\<lambda>s. s),
     read_file = (\<lambda>fs p. case map_of fs (path_add (splitext_root p) ''.prj'') of
                     Some (File (Raw s)) \<Rightarrow> Inr (if s = [] then None else Some s)
                   | _ \<Rightarrow> Inl (OtherError ''cannot read'')),
     crs = (\<lambda>g. g),
     to_crs = (\<lambda>g t. Inr (Some t)),
     to_file = (\<lambda>g name.
        Inr [(name, Raw ''shp''),
             (fst (splitext name) @ ''.shx'', Raw ''shx''),
             (fst (splitext name) @ ''.dbf'', Raw ''dbf''),
             (fst (splitext name) @ ''.prj'', Raw (case g of Some t \<Rightarrow> t | None \<Rightarrow> []))])\<rparr>"

definition empty_world :: world where
  "empty_world =
     \<lparr>disk = [], next_tmp = 0, temp_file_store = Map.empty, stdout = [],
      dir_order = (\<lambda>names. names)\<rparr>"

definition parcels_zip :: blob where
  "parcels_zip =
     Zip [(''parcels.shp'', MFile (Raw ''g'')), (''parcels.shx'', MFile (Raw ''i'')),
          (''parcels.dbf'', MFile (Raw ''a'')), (''parcels.prj'', MFile (Raw ''EPSG:4326''))]"

definition parcels_request :: request where
  "parcels_request =
     \<lparr>files_file = Some \<lparr>filename = ''parcels.zip'', content = parcels_zip\<rparr>,
      form_target_crs = Some ''EPSG:3857'', host_url = ''http://host/''\<rparr>"

text \<open>The state after the upload \<open>parcels_request\<close> was handled in the empty state.\<close>

definition parcels_world :: world where
  "parcels_world =
     \<lparr>disk =
        [((0, []), Dir),
         ((0, [''parcels.zip'']), File parcels_zip),
         ((1, []), Dir),
         ((1, [''parcels.shp'']), File (Raw ''g'')),
         ((1, [''parcels.shx'']), File (Raw ''i'')),
         ((1, [''parcels.dbf'']), File (Raw ''a'')),
         ((1, [''parcels.prj'']), File (Raw ''EPSG:4326'')),
         ((1, [''reprojected'']), Dir),
         ((1, [''reprojected'', ''parcels.shp'']), File (Raw ''shp'')),
         ((1, [''reprojected'', ''parcels.shx'']), File (Raw ''shx'')),
         ((1, [''reprojected'', ''parcels.dbf'']), File (Raw ''dbf'')),
         ((1, [''reprojected'', ''parcels.prj'']), File (Raw ''EPSG:3857'')),
         ((2, []), Dir),
         ((2, [''reprojected_EPSG3857.zip'']),
          File (Zip [(''parcels.shp'', MFile (Raw ''shp'')),
                     (''parcels.shx'', MFile (Raw ''shx'')),
                     (''parcels.dbf'', MFile (Raw ''dbf'')),
                     (''parcels.prj'', MFile (Raw ''EPSG:3857''))]))],
      next_tmp = 3,
      temp_file_store = [''reprojected_EPSG3857.zip'' \<mapsto>
         \<lparr>path = (2, [''reprojected_EPSG3857.zip'']), temp_dirs = [(0, []), (1, []), (2, [])]\<rparr>],
      stdout = [], dir_order = (\<lambda>names. names)\<rparr>"


text \<open>
  The state after an upload was saved: the archive is in the upload directory. In
  \<open>uploaded_world\<close> it is the complete bundle, in \<open>incomplete_world\<close> an archive
  without the \<open>.shx\<close> and \<open>.dbf\<close> files.
\<close>

definition uploaded_world :: world where
  "uploaded_world =
     \<lparr>disk = [((0, []), Dir), ((0, [''parcels.zip'']), File parcels_zip)],
      next_tmp = 1, temp_file_store = Map.empty, stdout = [], dir_order = (\<lambda>names. names)\<rparr>"

definition incomplete_world :: world where
  "incomplete_world =
     \<lparr>disk = [((0, []), Dir),
              ((0, [''parcels.zip'']),
               File (Zip [(''parcels.shp'', MFile (Raw ''g'')),
                          (''parcels.prj'', MFile (Raw ''EPSG:4326''))]))],
      next_tmp = 1, temp_file_store = Map.empty, stdout = [], dir_order = (\<lambda>names. names)\<rparr>"

text \<open>
  The saved upload of a bundle whose \<open>.prj\<close> file is empty: the layer declares no
  CRS.
\<close>

definition nocrs_world :: world where
  "nocrs_world =
     \<lparr>disk = [((0, []), Dir),
              ((0, [''parcels.zip'']),
               File (Zip [(''parcels.shp'', MFile (Raw ''g'')), (''parcels.shx'', MFile (Raw ''i'')),
                          (''parcels.dbf'', MFile (Raw ''a'')), (''parcels.prj'', MFile (Raw []))]))],
      next_tmp = 1, temp_file_store = Map.empty, stdout = [], dir_order = (\<lambda>names. names)\<rparr>"

text \<open>A second upload, of another archive under another name, for the same target CRS.\<close>

definition roads_request :: request where
  "roads_request =
     \<lparr>files_file = Some \<lparr>filename = ''roads.zip'',
        content = Zip [(''roads.shp'', MFile (Raw ''r'')), (''roads.shx'', MFile (Raw ''s'')),
                       (''roads.dbf'', MFile (Raw ''t'')),
                       (''roads.prj'', MFile (Raw ''EPSG:27700''))]\<rparr>,
      form_target_crs = Some ''EPSG:3857'', host_url = ''http://host/''\<rparr>"

text \<open>
  Saved uploads with two \<open>.shp\<close> files. In \<open>two_shp_world\<close> the bundle \<open>a\<close> is
  complete and \<open>b.shp\<close> has no sidecar file. In \<open>mixed_world\<close> the bundle \<open>a\<close>
  lacks \<open>.shx\<close> and the bundle \<open>b\<close> lacks \<open>.dbf\<close>. Both list a directory in
  creation order.
\<close>

definition two_shp_world :: world where
  "two_shp_world =
     \<lparr>disk = [((0, []), Dir),
              ((0, [''two.zip'']),
               File (Zip [(''a.shp'', MFile (Raw ''g'')), (''a.shx'', MFile (Raw ''i'')),
                          (''a.dbf'', MFile (Raw ''a'')), (''a.prj'', MFile (Raw ''EPSG:4326'')),
                          (''b.shp'', MFile (Raw ''h''))]))],
      next_tmp = 1, temp_file_store = Map.empty, stdout = [],
      dir_order = (\<lambda>names. names)\<rparr>"

definition mixed_world :: world where
  "mixed_world =
     \<lparr>disk = [((0, []), Dir),
              ((0, [''two.zip'']),
               File (Zip [(''a.shp'', MFile (Raw ''g'')), (''a.dbf'', MFile (Raw ''a'')),
                          (''a.prj'', MFile (Raw ''EPSG:4326'')),
                          (''b.shp'', MFile (Raw ''h'')), (''b.shx'', MFile (Raw ''j'')),
                          (''b.prj'', MFile (Raw ''EPSG:4326''))]))],
      next_tmp = 1, temp_file_store = Map.empty, stdout = [],
      dir_order = (\<lambda>names. names)\<rparr>"

section \<open>Properties\<close>

subsection \<open>Order of the input checks\<close>

text \<open>
  C8. The upload handler checks its input in this order, and each failure is a response
  with status 400 and a JSON body with the key \<open>error\<close>: a missing file field; an
  empty file name or one that does not end in \<open>.zip\<close>; a missing (or empty)
  \<open>target_crs\<close> field; a target CRS that does not parse. A check decides the response
  whatever the later fields hold, so a later check is reached only when the earlier ones
  pass. The state is returned unchanged in all four cases.
\<close>

theorem reproject_api_check_order:
  "(files_file request = None \<longrightarrow>
      reproject_api L request w =
        (Inr (Json 400 [(''error'', ''No file part in the request'')]), w))
   \<and> (\<forall>file. files_file request = Some file
          \<and> (filename file = [] \<or> \<not> endswith (lower (filename file)) ''.zip'') \<longrightarrow>
      reproject_api L request w =
        (Inr (Json 400 [(''error'',
           ''No selected file or invalid file type. Please upload a .zip file.'')]), w))
   \<and> (\<forall>file. files_file request = Some file
          \<and> filename file \<noteq> [] \<and> endswith (lower (filename file)) ''.zip''
          \<and> (form_target_crs request = None \<or> form_target_crs request = Some []) \<longrightarrow>
      reproject_api L request w =
        (Inr (Json 400 [(''error'',
           ''Missing '' @ [CHR 0x27] @ ''target_crs'' @ [CHR 0x27] @ '' parameter'')]), w))
   \<and> (\<forall>file t e. files_file request = Some file
          \<and> filename file \<noteq> [] \<and> endswith (lower (filename file)) ''.zip''
          \<and> form_target_crs request = Some t \<and> t \<noteq> [] \<and> CRS L t = Inl e \<longrightarrow>
      reproject_api L request w =
        (Inr (Json 400 [(''error'',
           ''Invalid target CRS: '' @ [CHR 0x27] @ t @ [CHR 0x27] @ ''. Example: EPSG:4326'')]), w))"
  by (auto simp: reproject_api_def)

theorem reproject_api_check_order_witness:
  "reproject_api demo_lib (parcels_request\<lparr>files_file := None\<rparr>) empty_world =
     (Inr (Json 400 [(''error'', ''No file part in the request'')]), empty_world)
   \<and> reproject_api demo_lib
        (parcels_request\<lparr>files_file := Some \<lparr>filename = ''parcels.txt'', content = parcels_zip\<rparr>,
                         form_target_crs := None\<rparr>) empty_world =
     (Inr (Json 400 [(''error'',
        ''No selected file or invalid file type. Please upload a .zip file.'')]), empty_world)
   \<and> reproject_api demo_lib (parcels_request\<lparr>form_target_crs := None\<rparr>) empty_world =
     (Inr (Json 400 [(''error'',
        ''Missing '' @ [CHR 0x27] @ ''target_crs'' @ [CHR 0x27] @ '' parameter'')]), empty_world)
   \<and> reproject_api demo_lib (parcels_request\<lparr>form_target_crs := Some ''mercator''\<rparr>) empty_world =
     (Inr (Json 400 [(''error'',
        ''Invalid target CRS: '' @ [CHR 0x27] @ ''mercator'' @ [CHR 0x27]
          @ ''. Example: EPSG:4326'')]), empty_world)"
  using reproject_api_check_order [of "parcels_request\<lparr>files_file := None\<rparr>" demo_lib empty_world]
    reproject_api_check_order [of
      "parcels_request\<lparr>files_file := Some \<lparr>filename = ''parcels.txt'', content = parcels_zip\<rparr>,
                       form_target_crs := None\<rparr>" demo_lib empty_world]
    reproject_api_check_order [of "parcels_request\<lparr>form_target_crs := None\<rparr>" demo_lib empty_world]
    reproject_api_check_order [of "parcels_request\<lparr>form_target_crs := Some ''mercator''\<rparr>"
      demo_lib empty_world]
  by (simp add: parcels_request_def demo_lib_def endswith_def lower_def char_lower_def)

subsection \<open>An unparsable target CRS\<close>

text \<open>
  C2. A request whose \<open>target_crs\<close> does not parse gets status 400 and the state is
  returned as it was: no scratch directory was created and no file was saved or
  extracted, the parse being checked before \<open>mkdtemp\<close> and \<open>file.save\<close>. When the
  request passes the checks that come first (the file field, its name, a non-empty
  \<open>target_crs\<close>), the message names the offending value and gives \<open>EPSG:4326\<close> as an
  example.
\<close>

theorem invalid_crs_rejected_before_scratch:
  assumes "form_target_crs request = Some t" and "CRS L t = Inl e"
  shows "(\<exists>msg. reproject_api L request w = (Inr (Json 400 [(''error'', msg)]), w))
     \<and> (\<forall>file. files_file request = Some file \<and> filename file \<noteq> []
            \<and> endswith (lower (filename file)) ''.zip'' \<and> t \<noteq> [] \<longrightarrow>
          reproject_api L request w =
            (Inr (Json 400 [(''error'',
               ''Invalid target CRS: '' @ [CHR 0x27] @ t @ [CHR 0x27]
                 @ ''. Example: EPSG:4326'')]), w))"
  using assms by (auto simp: reproject_api_def split: option.splits)

theorem invalid_crs_rejected_before_scratch_witness:
  "form_target_crs (parcels_request\<lparr>form_target_crs := Some ''EPSG4326''\<rparr>) = Some ''EPSG4326''
   \<and> CRS demo_lib ''EPSG4326'' = Inl (OtherError ''Invalid projection'')
   \<and> reproject_api demo_lib (parcels_request\<lparr>form_target_crs := Some ''EPSG4326''\<rparr>) empty_world =
       (Inr (Json 400 [(''error'',
          ''Invalid target CRS: '' @ [CHR 0x27] @ ''EPSG4326'' @ [CHR 0x27]
            @ ''. Example: EPSG:4326'')]), empty_world)"
  using invalid_crs_rejected_before_scratch [of
      "parcels_request\<lparr>form_target_crs := Some ''EPSG4326''\<rparr>" "''EPSG4326''" demo_lib
      "OtherError ''Invalid projection''" empty_world]
  by (simp add: parcels_request_def demo_lib_def endswith_def lower_def char_lower_def)

subsection \<open>Downloads\<close>



text \<open>
  C4. The claim is that the first GET on a registered identifier answers 200 and that the
  record is consumed once the response is sent, so that a second GET answers 404. The
  handler registers \<open>cleanup_files\<close> for this, but on the response of \<open>send_file\<close>
  the function never runs. At the state after the upload \<open>parcels_request\<close>: the first
  GET answers 200 with the archive, the record and its directories stay, and the second
  GET answers 200 with the archive again.
\<close>

theorem second_download_still_served:
  "fst (download_request ''reprojected_EPSG3857.zip'' parcels_world) =
     Inr (SendFile 200
            (Zip [(''parcels.shp'', MFile (Raw ''shp'')), (''parcels.shx'', MFile (Raw ''shx'')),
                  (''parcels.dbf'', MFile (Raw ''dbf'')),
                  (''parcels.prj'', MFile (Raw ''EPSG:3857''))])
            ''reprojected_EPSG3857.zip'')
   \<and> snd (download_request ''reprojected_EPSG3857.zip'' parcels_world) = parcels_world
   \<and> temp_file_store (snd (download_request ''reprojected_EPSG3857.zip'' parcels_world))
        ''reprojected_EPSG3857.zip'' =
       Some \<lparr>path = (2, [''reprojected_EPSG3857.zip'']), temp_dirs = [(0, []), (1, []), (2, [])]\<rparr>
   \<and> fst (download_request ''reprojected_EPSG3857.zip''
            (snd (download_request ''reprojected_EPSG3857.zip'' parcels_world))) =
     Inr (SendFile 200
            (Zip [(''parcels.shp'', MFile (Raw ''shp'')), (''parcels.shx'', MFile (Raw ''shx'')),
                  (''parcels.dbf'', MFile (Raw ''dbf'')),
                  (''parcels.prj'', MFile (Raw ''EPSG:3857''))])
            ''reprojected_EPSG3857.zip'')"
  by (simp add: download_request_def download_file_def parcels_world_def exists_def basename_def)

subsection \<open>The file system\<close>

text \<open>What the operations on the file system change and what they leave as it is.\<close>

lemma map_of_put: "map_of (put fs p n) q = (if q = p then Some n else map_of fs q)"
  by (induction fs p n rule: put.induct) auto

lemma map_of_rm: "map_of (filter (\<lambda>(p, n). \<not> inside d p) fs) q = (if inside d q then None else map_of fs q)"
  by (induction fs) auto

lemma inside_self: "inside d d"
  by (simp add: inside_def)

lemma inside_app: "inside (d, pre @ xs) q \<Longrightarrow> inside (d, pre) q"
  by (auto simp: inside_def) (metis append_eq_conv_conj take_take min.absorb1 length_append le_add1)

lemma inside_ext: "inside (d, pre) (d, pre @ xs)"
  by (simp add: inside_def)

lemma rmtree_result:
  "rmtree fs d = Inr fs' \<Longrightarrow> map_of fs' q = (if inside d q then None else map_of fs q)"
  by (auto simp: rmtree_def map_of_rm split: option.splits node.splits)

lemma rmtree_dir: "map_of fs d = Some Dir \<Longrightarrow> rmtree fs d = Inr (filter (\<lambda>(p, n). \<not> inside d p) fs)"
  by (simp add: rmtree_def)

lemma makedirs_from_outside:
  "makedirs_from fs d pre cs = Inr fs' \<Longrightarrow> \<not> inside (d, pre) q \<Longrightarrow> map_of fs' q = map_of fs q"
proof (induction fs d pre cs arbitrary: fs' rule: makedirs_from.induct)
  case (1 fs d pre)
  then show ?case by simp
next
  case (2 fs d pre c cs)
  have nu: "\<not> inside (d, pre @ [c]) q" using "2.prems"(2) inside_app by blast
  have ne: "q \<noteq> (d, pre @ [c])" using "2.prems"(2) inside_ext by blast
  show ?case
  proof (cases "map_of fs (d, pre @ [c])")
    case None
    with "2.prems" have r: "makedirs_from (put fs (d, pre @ [c]) Dir) d (pre @ [c]) cs = Inr fs'"
      by (simp add: Let_def)
    from "2.IH"(1)[OF refl None r nu] ne show ?thesis by (simp add: map_of_put)
  next
    case (Some n)
    show ?thesis
    proof (cases n)
      case Dir
      with Some "2.prems" have r: "makedirs_from fs d (pre @ [c]) cs = Inr fs'"
        by (simp add: Let_def)
      from "2.IH"(2)[OF refl Some Dir r nu] show ?thesis .
    next
      case (File b)
      with Some "2.prems" show ?thesis by (simp add: Let_def split: if_splits)
    qed
  qed
qed

lemma makedirs_from_keeps:
  "makedirs_from fs d pre cs = Inr fs' \<Longrightarrow> map_of fs q = Some n \<Longrightarrow> map_of fs' q = Some n"
proof (induction fs d pre cs arbitrary: fs' rule: makedirs_from.induct)
  case (1 fs d pre)
  then show ?case by simp
next
  case (2 fs d pre c cs)
  show ?case
  proof (cases "map_of fs (d, pre @ [c])")
    case None
    with "2.prems" have r: "makedirs_from (put fs (d, pre @ [c]) Dir) d (pre @ [c]) cs = Inr fs'"
      by (simp add: Let_def)
    have "map_of (put fs (d, pre @ [c]) Dir) q = Some n"
      using None "2.prems"(2) by (auto simp: map_of_put)
    from "2.IH"(1)[OF refl None r this] show ?thesis .
  next
    case (Some m)
    show ?thesis
    proof (cases m)
      case Dir
      with Some "2.prems" have r: "makedirs_from fs d (pre @ [c]) cs = Inr fs'"
        by (simp add: Let_def)
      from "2.IH"(2)[OF refl Some Dir r "2.prems"(2)] show ?thesis .
    next
      case (File b)
      with Some "2.prems" show ?thesis by (simp add: Let_def split: if_splits)
    qed
  qed
qed

lemma write_file_result:
  "write_file fs p b = Inr fs' \<Longrightarrow> map_of fs' q = (if q = p then Some (File b) else map_of fs q)"
  by (auto simp: write_file_def map_of_put split: if_splits)

lemma write_file_keeps_dir:
  "write_file fs p b = Inr fs' \<Longrightarrow> map_of fs q = Some Dir \<Longrightarrow> map_of fs' q = Some Dir"
  by (auto simp: write_file_def map_of_put isdir_def split: if_splits)

lemma extract_member_outside:
  "extract_member fs dir name m = Inr fs' \<Longrightarrow> \<not> inside dir q \<Longrightarrow> map_of fs' q = map_of fs q"
  by (cases dir; cases m)
     (auto simp: extract_member_def Let_def write_file_result inside_ext
           dest: makedirs_from_outside split: sum.splits if_splits)

lemma extract_member_keeps_dir:
  "extract_member fs dir name m = Inr fs' \<Longrightarrow> map_of fs q = Some Dir \<Longrightarrow> map_of fs' q = Some Dir"
  by (cases m)
     (auto simp: extract_member_def Let_def
           dest: makedirs_from_keeps write_file_keeps_dir split: sum.splits if_splits)

lemma extract_members_outside:
  "extract_members fs dir ms = (r, fs') \<Longrightarrow> \<not> inside dir q \<Longrightarrow> map_of fs' q = map_of fs q"
proof (induction ms arbitrary: fs)
  case Nil
  then show ?case by simp
next
  case (Cons a ms)
  obtain name m where a: "a = (name, m)" by (cases a)
  show ?case
  proof (cases "extract_member fs dir name m")
    case (Inl e)
    with Cons.prems a show ?thesis by simp
  next
    case (Inr fs1)
    with Cons.prems a have "extract_members fs1 dir ms = (r, fs')" by simp
    from Cons.IH[OF this Cons.prems(2)] extract_member_outside[OF Inr Cons.prems(2)]
    show ?thesis by simp
  qed
qed

lemma extract_members_keeps_dir:
  "extract_members fs dir ms = (r, fs') \<Longrightarrow> map_of fs q = Some Dir \<Longrightarrow> map_of fs' q = Some Dir"
proof (induction ms arbitrary: fs)
  case Nil
  then show ?case by simp
next
  case (Cons a ms)
  obtain name m where a: "a = (name, m)" by (cases a)
  show ?case
  proof (cases "extract_member fs dir name m")
    case (Inl e)
    with Cons.prems a show ?thesis by simp
  next
    case (Inr fs1)
    with Cons.prems a have "extract_members fs1 dir ms = (r, fs')" by simp
    from Cons.IH[OF this extract_member_keeps_dir[OF Inr Cons.prems(2)]]
    show ?thesis .
  qed
qed

lemma extractall_outside:
  "extractall fs z dir = (r, fs') \<Longrightarrow> \<not> inside dir q \<Longrightarrow> map_of fs' q = map_of fs q"
  by (auto simp: extractall_def dest: extract_members_outside
      split: option.splits node.splits blob.splits)

lemma extractall_keeps_dir:
  "extractall fs z dir = (r, fs') \<Longrightarrow> map_of fs q = Some Dir \<Longrightarrow> map_of fs' q = Some Dir"
  by (auto simp: extractall_def dest: extract_members_keeps_dir
      split: option.splits node.splits blob.splits)

lemma sublist_str_join: "x \<in> set xs \<Longrightarrow> sublist x (str_join sep xs)"
proof (induction sep xs rule: str_join.induct)
  case (1 sep)
  then show ?case by simp
next
  case (2 sep y)
  then show ?case by simp
next
  case (3 sep y z zs)
  show ?case
  proof (cases "x = y")
    case True
    then show ?thesis by simp
  next
    case False
    with 3 have "sublist x (str_join sep (z # zs))" by simp
    then obtain ps ss where "str_join sep (z # zs) = ps @ x @ ss"
      by (auto simp: sublist_def)
    hence "str_join sep (y # z # zs) = (y @ sep @ ps) @ x @ ss" by simp
    thus ?thesis unfolding sublist_def by blast
  qed
qed

lemma mkdtemp_eq:
  "mkdtemp w = ((next_tmp w, []), w\<lparr>disk := put (disk w) (next_tmp w, []) Dir, next_tmp := next_tmp w + 1\<rparr>)"
  by (simp add: mkdtemp_def Let_def)

lemma check_failure_cleanup:
  assumes z: "path_endswith zip_path ''.zip''" "is_zipfile (disk w) zip_path"
    and r: "check_extracted zip_path (next_tmp w, [])
              (w\<lparr>disk := put (disk w) (next_tmp w, []) Dir, next_tmp := next_tmp w + 1\<rparr>) = (Inl e, w2)"
  shows "check_shapefile_completeness zip_path w =
           (Inl e, w2\<lparr>disk := filter (\<lambda>(p, n). \<not> inside (next_tmp w, []) p) (disk w2)\<rparr>)"
    and "\<forall>q. \<not> inside (next_tmp w, []) q \<longrightarrow> map_of (disk w2) q = map_of (disk w) q"
proof -
  let ?d = "(next_tmp w, [])"
  let ?w1 = "w\<lparr>disk := put (disk w) ?d Dir, next_tmp := next_tmp w + 1\<rparr>"
  obtain x fs1 where ex: "extractall (disk ?w1) zip_path ?d = (x, fs1)" by (cases "extractall (disk ?w1) zip_path ?d")
  have d2: "disk w2 = fs1"
    using r ex by (auto simp: check_extracted_def Let_def split: option.splits list.splits if_splits)
  have "map_of (disk ?w1) ?d = Some Dir" by (simp add: map_of_put)
  from extractall_keeps_dir[OF ex this] have "map_of (disk w2) ?d = Some Dir" using d2 by simp
  hence rm: "rmtree (disk w2) ?d = Inr (filter (\<lambda>(p, n). \<not> inside ?d p) (disk w2))"
    by (rule rmtree_dir)
  show "check_shapefile_completeness zip_path w =
           (Inl e, w2\<lparr>disk := filter (\<lambda>(p, n). \<not> inside ?d p) (disk w2)\<rparr>)"
    using z r rm by (simp add: check_shapefile_completeness_def mkdtemp_eq)
  show "\<forall>q. \<not> inside ?d q \<longrightarrow> map_of (disk w2) q = map_of (disk w) q"
  proof (intro allI impI)
    fix q assume nu: "\<not> inside ?d q"
    hence "q \<noteq> ?d" using inside_self by blast
    with extractall_outside[OF ex nu] d2 show "map_of (disk w2) q = map_of (disk w) q"
      by (simp add: map_of_put)
  qed
qed


subsection \<open>Validation\<close>

text \<open>The functions evaluated on the example inputs.\<close>

lemmas check_defs =
  check_shapefile_completeness_def
  check_extracted_def extractall_def extract_member_def member_path_def mkdtemp_def
  write_file_def rmtree_def inside_def listdir_def dir_names_def join_def basename_def parent_def
  path_endswith_def splitext_root_def path_add_def splitext_def exists_def isdir_def
  is_zipfile_def endswith_def lower_def char_lower_def Let_def

lemma check_txt_run:
  "check_shapefile_completeness (0, [''parcels.txt'']) uploaded_world =
     (Inl (ValueError ''Input must be a zipped shapefile''), uploaded_world)"
  by (simp add: check_shapefile_completeness_def path_endswith_def basename_def endswith_def
      lower_def char_lower_def)

lemma incomplete_extract:
  "extractall (put (disk incomplete_world) (1, []) Dir) (0, [''parcels.zip'']) (1, []) =
     (None, disk incomplete_world @ [((1, []), Dir), ((1, [''parcels.shp'']), File (Raw ''g'')),
         ((1, [''parcels.prj'']), File (Raw ''EPSG:4326''))])"
  by (simp add: incomplete_world_def extractall_def extract_member_def member_path_def
      write_file_def isdir_def parent_def exists_def)

lemma incomplete_check_run:
  "check_shapefile_completeness (0, [''parcels.zip'']) incomplete_world =
     (Inl (FileNotFoundError ''Incomplete shapefile. Missing: .shx, .dbf''),
      incomplete_world\<lparr>next_tmp := 2\<rparr>)"
  using incomplete_extract
  by (simp add: check_defs incomplete_world_def)

lemma uploaded_check_run:
  "check_shapefile_completeness (0, [''parcels.zip'']) uploaded_world =
     (Inr ((1, [''parcels.shp'']), (1, [])),
      uploaded_world\<lparr>disk := disk uploaded_world @
          [((1, []), Dir),
           ((1, [''parcels.shp'']), File (Raw ''g'')),
           ((1, [''parcels.shx'']), File (Raw ''i'')),
           ((1, [''parcels.dbf'']), File (Raw ''a'')),
           ((1, [''parcels.prj'']), File (Raw ''EPSG:4326''))], next_tmp := 2\<rparr>)"
  by (simp add: check_defs uploaded_world_def parcels_zip_def)


text \<open>
  C6. \<open>check_shapefile_completeness\<close> and its scratch directory. When the path does
  not end in \<open>.zip\<close> or is not a zip archive, it fails before any directory is
  created and the state is unchanged. When it fails after \<open>mkdtemp\<close> (a member that
  cannot be extracted, no \<open>.shp\<close> file, missing sidecar files), the new directory and
  everything below it is gone when the exception leaves the function, and every other
  path is as before. When it succeeds, the returned directory is the new one, it is on
  disk, and the disk is what \<open>extractall\<close> left: the extracted files are still there.
\<close>

theorem validation_scratch_cleanup:
  "(\<not> path_endswith zip_path ''.zip'' \<or> \<not> is_zipfile (disk w) zip_path \<longrightarrow>
      (\<exists>e. check_shapefile_completeness zip_path w = (Inl e, w)))
   \<and> (\<forall>e w'. path_endswith zip_path ''.zip'' \<and> is_zipfile (disk w) zip_path
         \<and> check_shapefile_completeness zip_path w = (Inl e, w') \<longrightarrow>
       (\<forall>q. map_of (disk w') q = (if inside (next_tmp w, []) q then None else map_of (disk w) q)))
   \<and> (\<forall>shp_path temp_dir w'.
         check_shapefile_completeness zip_path w = (Inr (shp_path, temp_dir), w') \<longrightarrow>
       temp_dir = (next_tmp w, [])
       \<and> map_of (disk w') temp_dir = Some Dir
       \<and> extractall (put (disk w) temp_dir Dir) zip_path temp_dir = (None, disk w'))"
proof (intro conjI allI impI)
  assume "\<not> path_endswith zip_path ''.zip'' \<or> \<not> is_zipfile (disk w) zip_path"
  thus "\<exists>e. check_shapefile_completeness zip_path w = (Inl e, w)"
    by (auto simp: check_shapefile_completeness_def)
next
  fix e w' q
  assume a: "path_endswith zip_path ''.zip'' \<and> is_zipfile (disk w) zip_path
         \<and> check_shapefile_completeness zip_path w = (Inl e, w')"
  let ?d = "(next_tmp w, [])"
  let ?w1 = "w\<lparr>disk := put (disk w) ?d Dir, next_tmp := next_tmp w + 1\<rparr>"
  obtain res w2 where ce: "check_extracted zip_path ?d ?w1 = (res, w2)"
    by (cases "check_extracted zip_path ?d ?w1")
  have "\<exists>e0. res = Inl e0"
    using a ce by (cases res) (auto simp: check_shapefile_completeness_def mkdtemp_eq)
  then obtain e0 where res: "res = Inl e0" by blast
  from a ce res check_failure_cleanup(1)[of zip_path w e0 w2]
  have w': "w' = w2\<lparr>disk := filter (\<lambda>(p, n). \<not> inside ?d p) (disk w2)\<rparr>" by simp
  from a ce res check_failure_cleanup(2)[of zip_path w e0 w2]
  have fr: "\<forall>q. \<not> inside ?d q \<longrightarrow> map_of (disk w2) q = map_of (disk w) q" by simp
  show "map_of (disk w') q = (if inside ?d q then None else map_of (disk w) q)"
    using w' fr by (cases q) (simp add: map_of_rm)
next
  fix shp_path temp_dir w'
  assume a: "check_shapefile_completeness zip_path w = (Inr (shp_path, temp_dir), w')"
  let ?d = "(next_tmp w, [])"
  let ?w1 = "w\<lparr>disk := put (disk w) ?d Dir, next_tmp := next_tmp w + 1\<rparr>"
  have z: "path_endswith zip_path ''.zip''" "is_zipfile (disk w) zip_path"
    using a by (auto simp: check_shapefile_completeness_def split: if_splits)
  have ce: "check_extracted zip_path ?d ?w1 = (Inr (shp_path, temp_dir), w')"
    using a z by (auto simp: check_shapefile_completeness_def mkdtemp_eq
        split: prod.splits sum.splits)
  obtain x fs1 where ex: "extractall (disk ?w1) zip_path ?d = (x, fs1)"
    by (cases "extractall (disk ?w1) zip_path ?d")
  from ce ex have x: "x = None" and t: "temp_dir = ?d" and d: "disk w' = fs1"
    by (auto simp: check_extracted_def Let_def split: option.splits list.splits if_splits)
  show "temp_dir = ?d" by (rule t)
  have "map_of (disk ?w1) ?d = Some Dir" by (simp add: map_of_put)
  from extractall_keeps_dir[OF ex this] d t show "map_of (disk w') temp_dir = Some Dir" by simp
  from ex x d t show "extractall (put (disk w) temp_dir Dir) zip_path temp_dir = (None, disk w')"
    by simp
qed

theorem validation_scratch_cleanup_witness:
  "check_shapefile_completeness (0, [''parcels.txt'']) uploaded_world =
     (Inl (ValueError ''Input must be a zipped shapefile''), uploaded_world)
   \<and> check_shapefile_completeness (0, [''parcels.zip'']) incomplete_world =
     (Inl (FileNotFoundError ''Incomplete shapefile. Missing: .shx, .dbf''),
      incomplete_world\<lparr>next_tmp := 2\<rparr>)
   \<and> map_of (disk (incomplete_world\<lparr>next_tmp := 2\<rparr>)) (1, []) = None
   \<and> map_of (disk (incomplete_world\<lparr>next_tmp := 2\<rparr>)) (1, [''parcels.shp'']) = None
   \<and> fst (check_shapefile_completeness (0, [''parcels.zip'']) uploaded_world) =
       Inr ((1, [''parcels.shp'']), (1, []))
   \<and> map_of (disk (snd (check_shapefile_completeness (0, [''parcels.zip'']) uploaded_world)))
        (1, []) = Some Dir"
proof -
  have z: "path_endswith (0, [''parcels.zip'']) ''.zip''"
    "is_zipfile (disk incomplete_world) (0, [''parcels.zip''])"
    by (simp_all add: path_endswith_def basename_def endswith_def lower_def char_lower_def
        is_zipfile_def incomplete_world_def)
  have n: "next_tmp incomplete_world = 1" "next_tmp uploaded_world = 1"
    by (simp_all add: incomplete_world_def uploaded_world_def)
  have i1: "inside (1, []) (1, [])" "inside (1, []) (1, [''parcels.shp''])"
    by (simp_all add: inside_def)
  from validation_scratch_cleanup [of "(0, [''parcels.zip''])" incomplete_world]
    z incomplete_check_run n
  have a: "\<forall>q. map_of (disk (incomplete_world\<lparr>next_tmp := 2\<rparr>)) q =
             (if inside (1, []) q then None else map_of (disk incomplete_world) q)"
    by metis
  from validation_scratch_cleanup [of "(0, [''parcels.zip''])" uploaded_world]
    uploaded_check_run n
  have b: "map_of (disk (snd (check_shapefile_completeness (0, [''parcels.zip'']) uploaded_world)))
        (1, []) = Some Dir"
    by (metis snd_conv)
  have a1: "map_of (disk (incomplete_world\<lparr>next_tmp := 2\<rparr>)) (1, []) = None"
    using spec [OF a, of "(1, [])"] i1(1) by (simp only: if_True)
  have a2: "map_of (disk (incomplete_world\<lparr>next_tmp := 2\<rparr>)) (1, [''parcels.shp'']) = None"
    using spec [OF a, of "(1, [''parcels.shp''])"] i1(2) by (simp only: if_True)
  have c: "fst (check_shapefile_completeness (0, [''parcels.zip'']) uploaded_world) =
       Inr ((1, [''parcels.shp'']), (1, []))"
    by (simp only: uploaded_check_run fst_conv)
  from a1 a2 b c check_txt_run incomplete_check_run show ?thesis
    by (intro conjI)
qed


text \<open>
  The claim C3 speaks of every \<open>.shp\<close> file of the archive whose sidecar files are
  incomplete. The function examines one \<open>.shp\<close> file only, the one that
  \<open>os.listdir\<close> lists first. With a complete bundle \<open>a\<close> listed before a bare
  \<open>b.shp\<close>, validation succeeds although \<open>b.shx\<close>, \<open>b.dbf\<close> and
  \<open>b.prj\<close> are missing. With \<open>a\<close> lacking \<open>.shx\<close> and \<open>b\<close> lacking
  \<open>.dbf\<close>, the message names one of the two extensions and not the other, whichever
  of the two files is listed first.
\<close>

theorem incomplete_shapefile_counterexample:
  "fst (check_shapefile_completeness (0, [''two.zip'']) two_shp_world) =
     Inr ((1, [''a.shp'']), (1, []))
   \<and> exists (disk (snd (check_shapefile_completeness (0, [''two.zip'']) two_shp_world)))
        (1, [''b.shp''])
   \<and> \<not> exists (disk (snd (check_shapefile_completeness (0, [''two.zip'']) two_shp_world)))
        (1, [''b.shx''])
   \<and> fst (check_shapefile_completeness (0, [''two.zip'']) mixed_world) =
     Inl (FileNotFoundError ''Incomplete shapefile. Missing: .shx'')
   \<and> \<not> sublist ''.dbf'' ''Incomplete shapefile. Missing: .shx''
   \<and> fst (check_shapefile_completeness (0, [''two.zip'']) (mixed_world\<lparr>dir_order := rev\<rparr>)) =
     Inl (FileNotFoundError ''Incomplete shapefile. Missing: .dbf'')
   \<and> \<not> sublist ''.shx'' ''Incomplete shapefile. Missing: .dbf''"
proof -
  have a: "check_shapefile_completeness (0, [''two.zip'']) two_shp_world =
     (Inr ((1, [''a.shp'']), (1, [])),
      two_shp_world\<lparr>disk := disk two_shp_world @
          [((1, []), Dir),
           ((1, [''a.shp'']), File (Raw ''g'')), ((1, [''a.shx'']), File (Raw ''i'')),
           ((1, [''a.dbf'']), File (Raw ''a'')), ((1, [''a.prj'']), File (Raw ''EPSG:4326'')),
           ((1, [''b.shp'']), File (Raw ''h''))], next_tmp := 2\<rparr>)"
    by (simp add: check_defs two_shp_world_def)
  have b: "fst (check_shapefile_completeness (0, [''two.zip'']) mixed_world) =
     Inl (FileNotFoundError ''Incomplete shapefile. Missing: .shx'')"
    by (simp add: check_defs mixed_world_def)
  have c: "fst (check_shapefile_completeness (0, [''two.zip'']) (mixed_world\<lparr>dir_order := rev\<rparr>)) =
     Inl (FileNotFoundError ''Incomplete shapefile. Missing: .dbf'')"
    by (simp add: check_defs mixed_world_def)
  have d: "\<not> sublist ''.dbf'' ''Incomplete shapefile. Missing: .shx''"
    by code_simp
  have e: "\<not> sublist ''.shx'' ''Incomplete shapefile. Missing: .dbf''"
    by code_simp
  from a b c d e show ?thesis by (simp add: exists_def two_shp_world_def)
qed

text \<open>
  C3, amended. When the \<open>.shp\<close> file that \<open>os.listdir\<close> lists first in the
  extracted archive lacks at least one of \<open>.shx\<close>, \<open>.dbf\<close>, \<open>.prj\<close> for its
  base name, validation fails with \<open>FileNotFoundError\<close> and the message
  \<open>Incomplete shapefile. Missing: \<close> followed by all missing extensions of that base
  name, separated by commas: every one of them occurs in the message. Other \<open>.shp\<close>
  files of the archive are not examined.
\<close>

theorem incomplete_shapefile_names_all_missing:
  assumes "path_endswith zip_path ''.zip''" and "is_zipfile (disk w) zip_path"
    and "extractall (put (disk w) (next_tmp w, []) Dir) zip_path (next_tmp w, []) = (None, fs1)"
    and "filter (\<lambda>f. endswith (lower f) ''.shp'')
           (listdir (dir_order w) fs1 (next_tmp w, [])) = f # rest"
    and "base_name = splitext_root (join (next_tmp w, []) f)"
    and "missing = filter (\<lambda>ext. \<not> exists fs1 (path_add base_name ext))
                     [''.shp'', ''.shx'', ''.dbf'', ''.prj'']"
    and "\<not> exists fs1 (path_add base_name ''.shx'') \<or> \<not> exists fs1 (path_add base_name ''.dbf'')
         \<or> \<not> exists fs1 (path_add base_name ''.prj'')"
  shows "fst (check_shapefile_completeness zip_path w) =
           Inl (FileNotFoundError (''Incomplete shapefile. Missing: '' @ str_join '', '' missing))
    \<and> (\<forall>ext \<in> {''.shx'', ''.dbf'', ''.prj''}. \<not> exists fs1 (path_add base_name ext) \<longrightarrow>
          sublist ext (''Incomplete shapefile. Missing: '' @ str_join '', '' missing))"
proof -
  let ?d = "(next_tmp w, [])"
  let ?w1 = "w\<lparr>disk := put (disk w) ?d Dir, next_tmp := next_tmp w + 1\<rparr>"
  let ?msg = "''Incomplete shapefile. Missing: '' @ str_join '', '' missing"
  have ne: "missing \<noteq> []"
    using assms(6,7) by (auto simp: filter_empty_conv)
  have ce: "check_extracted zip_path ?d ?w1 = (Inl (FileNotFoundError ?msg), ?w1\<lparr>disk := fs1\<rparr>)"
    using assms(3,4,5,6) ne by (simp add: check_extracted_def Let_def)
  from check_failure_cleanup(1)[OF assms(1,2) ce]
  have 1: "fst (check_shapefile_completeness zip_path w) = Inl (FileNotFoundError ?msg)" by simp
  have 2: "\<forall>ext \<in> {''.shx'', ''.dbf'', ''.prj''}. \<not> exists fs1 (path_add base_name ext) \<longrightarrow>
          sublist ext ?msg"
  proof (intro ballI impI)
    fix ext assume "ext \<in> {''.shx'', ''.dbf'', ''.prj''}" "\<not> exists fs1 (path_add base_name ext)"
    hence "ext \<in> set missing" using assms(6) by auto
    hence "sublist ext (str_join '', '' missing)" by (rule sublist_str_join)
    then obtain ps ss where "str_join '', '' missing = ps @ ext @ ss" by (auto simp: sublist_def)
    hence "?msg = (''Incomplete shapefile. Missing: '' @ ps) @ ext @ ss" by simp
    thus "sublist ext ?msg" unfolding sublist_def by blast
  qed
  from 1 2 show ?thesis by blast
qed

theorem incomplete_shapefile_names_all_missing_witness:
  "fst (check_shapefile_completeness (0, [''parcels.zip'']) incomplete_world) =
     Inl (FileNotFoundError ''Incomplete shapefile. Missing: .shx, .dbf'')
   \<and> sublist ''.shx'' ''Incomplete shapefile. Missing: .shx, .dbf''
   \<and> sublist ''.dbf'' ''Incomplete shapefile. Missing: .shx, .dbf''"
proof -
  let ?fs1 = "disk incomplete_world @ [((1, []), Dir), ((1, [''parcels.shp'']), File (Raw ''g'')),
         ((1, [''parcels.prj'']), File (Raw ''EPSG:4326''))]"
  have n: "next_tmp incomplete_world = 1" by (simp add: incomplete_world_def)
  have h1: "path_endswith (0, [''parcels.zip'']) ''.zip''"
    by (simp add: path_endswith_def basename_def endswith_def lower_def char_lower_def)
  have h2: "is_zipfile (disk incomplete_world) (0, [''parcels.zip''])"
    by (simp add: is_zipfile_def incomplete_world_def)
  have h3: "extractall (put (disk incomplete_world) (next_tmp incomplete_world, []) Dir)
      (0, [''parcels.zip'']) (next_tmp incomplete_world, []) = (None, ?fs1)"
    using incomplete_extract n by simp
  have h4: "filter (\<lambda>f. endswith (lower f) ''.shp'')
      (listdir (dir_order incomplete_world) ?fs1 (next_tmp incomplete_world, []))
      = ''parcels.shp'' # []"
    by (simp add: n listdir_def dir_names_def incomplete_world_def endswith_def lower_def
        char_lower_def)
  have h5: "(1, [''parcels'']) = splitext_root (join (next_tmp incomplete_world, []) ''parcels.shp'')"
    by (simp add: n splitext_root_def join_def splitext_def)
  have h6: "[''.shx'', ''.dbf''] = filter (\<lambda>ext. \<not> exists ?fs1 (path_add (1, [''parcels'']) ext))
                     [''.shp'', ''.shx'', ''.dbf'', ''.prj'']"
    by (simp add: exists_def path_add_def incomplete_world_def)
  have h7: "\<not> exists ?fs1 (path_add (1, [''parcels'']) ''.shx'')
      \<or> \<not> exists ?fs1 (path_add (1, [''parcels'']) ''.dbf'')
      \<or> \<not> exists ?fs1 (path_add (1, [''parcels'']) ''.prj'')"
    by (simp add: exists_def path_add_def incomplete_world_def)
  have m: "\<not> exists ?fs1 (path_add (1, [''parcels'']) ''.shx'')"
    "\<not> exists ?fs1 (path_add (1, [''parcels'']) ''.dbf'')"
    by (simp_all add: exists_def path_add_def incomplete_world_def)
  from incomplete_shapefile_names_all_missing [OF h1 h2 h3 h4 h5 h6 h7] m
  show ?thesis by simp
qed

subsection \<open>Reprojection\<close>

lemma inside_fst: "inside d q \<Longrightarrow> fst q = fst d"
  by (simp add: inside_def)

lemma inside_root: "inside (d, []) q \<longleftrightarrow> fst q = d"
  by (simp add: inside_def)

lemma makedirs_outside:
  "makedirs fs p = Inr fs' \<Longrightarrow> fst q \<noteq> fst p \<Longrightarrow> map_of fs' q = map_of fs q"
  unfolding makedirs_def by (rule makedirs_from_outside) (auto simp: inside_def)

lemma makedirs_keeps:
  "makedirs fs p = Inr fs' \<Longrightarrow> map_of fs q = Some n \<Longrightarrow> map_of fs' q = Some n"
  unfolding makedirs_def by (rule makedirs_from_keeps)

lemma write_files_outside:
  "write_files fs dir xs = Inr fs' \<Longrightarrow> fst q \<noteq> fst dir \<Longrightarrow> map_of fs' q = map_of fs q"
proof (induction xs arbitrary: fs)
  case Nil
  then show ?case by simp
next
  case (Cons a xs)
  obtain name b where a: "a = (name, b)" by (cases a)
  from Cons.prems(1) a obtain fs1 where w: "write_file fs (join dir name) b = Inr fs1"
    and r: "write_files fs1 dir xs = Inr fs'"
    by (auto split: sum.splits)
  have "q \<noteq> join dir name" using Cons.prems(2) by (auto simp: join_def)
  with write_file_result[OF w, of q] Cons.IH[OF r Cons.prems(2)] show ?case by simp
qed

lemma write_files_keeps_dir:
  "write_files fs dir xs = Inr fs' \<Longrightarrow> map_of fs q = Some Dir \<Longrightarrow> map_of fs' q = Some Dir"
proof (induction xs arbitrary: fs)
  case Nil
  then show ?case by simp
next
  case (Cons a xs)
  obtain name b where a: "a = (name, b)" by (cases a)
  from Cons.prems(1) a obtain fs1 where w: "write_file fs (join dir name) b = Inr fs1"
    and r: "write_files fs1 dir xs = Inr fs'"
    by (auto split: sum.splits)
  from Cons.IH[OF r write_file_keeps_dir[OF w Cons.prems(2)]] show ?case .
qed

text \<open>Every step of the reprojection leaves existing directories in place.\<close>

lemma reproject_steps_keeps_dir:
  assumes "reproject_steps L shp_path temp_dir target_crs w = (r, w')"
    and "map_of (disk w) q = Some Dir"
  shows "map_of (disk w') q = Some Dir"
proof (cases "read_file L (disk w) shp_path")
  case (Inl e)
  with assms show ?thesis by (simp add: reproject_steps_def)
next
  case rf: (Inr gdf)
  show ?thesis
  proof (cases "crs L gdf = None")
    case True
    with assms rf show ?thesis by (simp add: reproject_steps_def)
  next
    case c: False
    show ?thesis
    proof (cases "to_crs L gdf target_crs")
      case (Inl e)
      with assms rf c show ?thesis by (simp add: reproject_steps_def)
    next
      case tc: (Inr gdf1)
      let ?out_dir = "join temp_dir ''reprojected''"
      show ?thesis
      proof (cases "makedirs (disk w) ?out_dir")
        case (Inl e)
        with assms rf c tc show ?thesis by (simp add: reproject_steps_def)
      next
        case md: (Inr fs1)
        have k1: "map_of fs1 q = Some Dir" using makedirs_keeps[OF md assms(2)] .
        let ?out_shp = "join ?out_dir (basename shp_path)"
        show ?thesis
        proof (cases "to_file L gdf1 (basename ?out_shp)")
          case (Inl e)
          with assms rf c tc md k1 show ?thesis by (auto simp: reproject_steps_def Let_def)
        next
          case tf: (Inr files)
          show ?thesis
          proof (cases "write_files fs1 (parent ?out_shp) files")
            case (Inl e)
            with assms rf c tc md tf k1 show ?thesis by (auto simp: reproject_steps_def Let_def)
          next
            case wf: (Inr fs2)
            have k2: "map_of fs2 q = Some Dir" using write_files_keeps_dir[OF wf k1] .
            let ?tout = "(next_tmp w, [])"
            let ?fs3 = "put fs2 ?tout Dir"
            have k3: "map_of ?fs3 q = Some Dir" using k2 by (simp add: map_of_put)
            let ?out = "join ?tout (''reprojected_'' @ remove_char CHR '':'' target_crs @ ''.zip'')"
            show ?thesis
            proof (cases "write_file ?fs3 ?out (Zip (zip_members (dir_order w) ?fs3 ?out_dir))")
              case (Inl e)
              with assms rf c tc md tf wf k3 show ?thesis
                by (auto simp: reproject_steps_def Let_def mkdtemp_eq)
            next
              case (Inr fs4)
              with assms rf c tc md tf wf write_file_keeps_dir[OF Inr k3] show ?thesis
                by (auto simp: reproject_steps_def Let_def mkdtemp_eq)
            qed
          qed
        qed
      qed
    qed
  qed
qed

lemma check_success:
  assumes "check_shapefile_completeness zip_path w = (Inr (shp_path, temp_dir), w1)"
  shows "temp_dir = (next_tmp w, [])"
    and "map_of (disk w1) temp_dir = Some Dir"
    and "extractall (put (disk w) temp_dir Dir) zip_path temp_dir = (None, disk w1)"
    and "next_tmp w1 = next_tmp w + 1"
    and "temp_file_store w1 = temp_file_store w"
    and "stdout w1 = stdout w"
    and "\<exists>f rest. filter (\<lambda>f. endswith (lower f) ''.shp'')
             (listdir (dir_order w) (disk w1) temp_dir) = f # rest
           \<and> shp_path = join temp_dir f"
    and "dir_order w1 = dir_order w"
proof -
  let ?d = "(next_tmp w, [])"
  let ?w1 = "w\<lparr>disk := put (disk w) ?d Dir, next_tmp := next_tmp w + 1\<rparr>"
  have z: "path_endswith zip_path ''.zip''" "is_zipfile (disk w) zip_path"
    using assms by (auto simp: check_shapefile_completeness_def split: if_splits)
  have ce: "check_extracted zip_path ?d ?w1 = (Inr (shp_path, temp_dir), w1)"
    using assms z by (auto simp: check_shapefile_completeness_def mkdtemp_eq
        split: prod.splits sum.splits)
  obtain x fs1 where ex: "extractall (disk ?w1) zip_path ?d = (x, fs1)"
    by (cases "extractall (disk ?w1) zip_path ?d")
  from ce ex have x: "x = None" and t: "temp_dir = ?d" and d: "disk w1 = fs1"
    and n: "next_tmp w1 = next_tmp w + 1" and s: "temp_file_store w1 = temp_file_store w"
    and o: "stdout w1 = stdout w"
    by (auto simp: check_extracted_def Let_def split: option.splits list.splits if_splits)
  show "temp_dir = ?d" by (rule t)
  have "map_of (disk ?w1) ?d = Some Dir" by (simp add: map_of_put)
  from extractall_keeps_dir[OF ex this] d t show "map_of (disk w1) temp_dir = Some Dir" by simp
  from ex x d t show "extractall (put (disk w) temp_dir Dir) zip_path temp_dir = (None, disk w1)"
    by simp
  show "next_tmp w1 = next_tmp w + 1" by (rule n)
  show "temp_file_store w1 = temp_file_store w" by (rule s)
  show "stdout w1 = stdout w" by (rule o)
  from ce ex x d t
  show "\<exists>f rest. filter (\<lambda>f. endswith (lower f) ''.shp'')
             (listdir (dir_order w) (disk w1) temp_dir) = f # rest
           \<and> shp_path = join temp_dir f"
    by (auto simp: check_extracted_def Let_def split: option.splits list.splits if_splits)
  from ce ex show "dir_order w1 = dir_order w"
    by (auto simp: check_extracted_def Let_def split: option.splits list.splits if_splits)
qed

text \<open>
  C5. When validation has succeeded and a later step of \<open>reproject_shapefile\<close>
  fails, the exception of that step leaves the function after the input scratch
  directory and everything below it was deleted. A layer without CRS metadata is such a
  failure: its exception is \<open>ValueError\<close> with the message
  \<open>No CRS information found in shapefile.\<close>
\<close>

theorem reproject_failure_removes_input_dir:
  assumes "check_shapefile_completeness zip_path w = (Inr (shp_path, temp_dir), w1)"
    and "reproject_shapefile L zip_path target_crs w = (Inl e, w')"
  shows "(\<forall>q. inside temp_dir q \<longrightarrow> \<not> exists (disk w') q)
    \<and> fst (reproject_steps L shp_path temp_dir target_crs w1) = Inl e
    \<and> (\<forall>gdf. read_file L (disk w1) shp_path = Inr gdf \<and> crs L gdf = None \<longrightarrow>
          e = ValueError ''No CRS information found in shapefile.'')"
proof -
  obtain r w2 where st: "reproject_steps L shp_path temp_dir target_crs w1 = (r, w2)"
    by (cases "reproject_steps L shp_path temp_dir target_crs w1")
  have d1: "map_of (disk w1) temp_dir = Some Dir"
    using check_success(2)[OF assms(1)] .
  have d2: "map_of (disk w2) temp_dir = Some Dir"
    using reproject_steps_keeps_dir[OF st d1] .
  hence rm: "rmtree (disk w2) temp_dir = Inr (filter (\<lambda>(p, n). \<not> inside temp_dir p) (disk w2))"
    by (rule rmtree_dir)
  have ex: "exists (disk w2) temp_dir" using d2 by (simp add: exists_def)
  from assms st rm ex have r: "r = Inl e"
    and w': "w' = w2\<lparr>disk := filter (\<lambda>(p, n). \<not> inside temp_dir p) (disk w2)\<rparr>"
    by (auto simp: reproject_shapefile_def split: sum.splits)
  have 1: "\<forall>q. inside temp_dir q \<longrightarrow> \<not> exists (disk w') q"
    using w' by (simp add: exists_def map_of_rm)
  have 2: "fst (reproject_steps L shp_path temp_dir target_crs w1) = Inl e"
    using st r by simp
  have 3: "\<forall>gdf. read_file L (disk w1) shp_path = Inr gdf \<and> crs L gdf = None \<longrightarrow>
          e = ValueError ''No CRS information found in shapefile.''"
    using 2 by (auto simp: reproject_steps_def)
  from 1 2 3 show ?thesis by blast
qed


lemma nocrs_check_run:
  "check_shapefile_completeness (0, [''parcels.zip'']) nocrs_world =
     (Inr ((1, [''parcels.shp'']), (1, [])),
      nocrs_world\<lparr>disk := disk nocrs_world @
          [((1, []), Dir),
           ((1, [''parcels.shp'']), File (Raw ''g'')),
           ((1, [''parcels.shx'']), File (Raw ''i'')),
           ((1, [''parcels.dbf'']), File (Raw ''a'')),
           ((1, [''parcels.prj'']), File (Raw []))], next_tmp := 2\<rparr>)"
  by (simp add: check_defs nocrs_world_def)

lemma nocrs_run:
  "reproject_shapefile demo_lib (0, [''parcels.zip'']) ''EPSG:3857'' nocrs_world =
     (Inl (ValueError ''No CRS information found in shapefile.''), nocrs_world\<lparr>next_tmp := 2\<rparr>)"
  apply (simp only: reproject_shapefile_def nocrs_check_run prod.case sum.case)
  apply (simp add: reproject_steps_def demo_lib_def nocrs_world_def path_add_def
      splitext_root_def splitext_def exists_def rmtree_def inside_def)
  done

theorem reproject_failure_removes_input_dir_witness:
  "check_shapefile_completeness (0, [''parcels.zip'']) nocrs_world =
     (Inr ((1, [''parcels.shp'']), (1, [])),
      nocrs_world\<lparr>disk := disk nocrs_world @
          [((1, []), Dir),
           ((1, [''parcels.shp'']), File (Raw ''g'')),
           ((1, [''parcels.shx'']), File (Raw ''i'')),
           ((1, [''parcels.dbf'']), File (Raw ''a'')),
           ((1, [''parcels.prj'']), File (Raw []))], next_tmp := 2\<rparr>)
   \<and> reproject_shapefile demo_lib (0, [''parcels.zip'']) ''EPSG:3857'' nocrs_world =
     (Inl (ValueError ''No CRS information found in shapefile.''), nocrs_world\<lparr>next_tmp := 2\<rparr>)
   \<and> \<not> exists (disk (nocrs_world\<lparr>next_tmp := 2\<rparr>)) (1, [])
   \<and> \<not> exists (disk (nocrs_world\<lparr>next_tmp := 2\<rparr>)) (1, [''parcels.shp''])"
proof -
  have i: "inside (1, []) (1, [])" "inside (1, []) (1, [''parcels.shp''])"
    by (simp_all add: inside_def)
  from reproject_failure_removes_input_dir [OF nocrs_check_run nocrs_run]
  have a: "\<forall>q. inside (1, []) q \<longrightarrow> \<not> exists (disk (nocrs_world\<lparr>next_tmp := 2\<rparr>)) q"
    by blast
  from a i nocrs_check_run nocrs_run show ?thesis by blast
qed

lemma disk_fresh_iff:
  "disk_fresh w \<longleftrightarrow> (\<forall>q. map_of (disk w) q \<noteq> None \<longrightarrow> fst q < next_tmp w)"
  by (force simp: disk_fresh_def list_all_iff map_of_eq_None_iff)

lemma split_sep_ne: "split_sep s \<noteq> []"
  by (induction s) (auto split: list.splits)

lemma split_sep_single: "split_sep s = [x] \<Longrightarrow> x = s"
proof (induction s arbitrary: x)
  case Nil
  then show ?case by simp
next
  case (Cons c cs)
  show ?case
  proof (cases "c = CHR ''/''")
    case True
    with Cons.prems split_sep_ne[of cs] show ?thesis by simp
  next
    case False
    with Cons.prems split_sep_ne[of cs] obtain y where "split_sep cs = [y]" "x = c # y"
      by (auto split: list.splits)
    with Cons.IH show ?thesis by simp
  qed
qed

lemma split_sep_plain: "CHR ''/'' \<notin> set s \<Longrightarrow> split_sep s = [s]"
  by (induction s) auto

lemma reproject_steps_success:
  assumes "reproject_steps L shp_path temp_dir target_crs w = (Inr (out, tin, tout), w')"
  shows "\<exists>gdf gdf1 fs1 files fs2.
      read_file L (disk w) shp_path = Inr gdf \<and> crs L gdf \<noteq> None
      \<and> to_crs L gdf target_crs = Inr gdf1
      \<and> makedirs (disk w) (join temp_dir ''reprojected'') = Inr fs1
      \<and> to_file L gdf1 (basename (join (join temp_dir ''reprojected'') (basename shp_path))) = Inr files
      \<and> write_files fs1 (parent (join (join temp_dir ''reprojected'') (basename shp_path))) files = Inr fs2
      \<and> tin = temp_dir \<and> tout = (next_tmp w, [])
      \<and> out = join tout (''reprojected_'' @ remove_char CHR '':'' target_crs @ ''.zip'')
      \<and> write_file (put fs2 tout Dir) out
            (Zip (zip_members (dir_order w) (put fs2 tout Dir) (join temp_dir ''reprojected'')))
          = Inr (disk w')
      \<and> next_tmp w' = next_tmp w + 1
      \<and> temp_file_store w' = temp_file_store w \<and> stdout w' = stdout w
      \<and> dir_order w' = dir_order w"
  using assms
  by (auto simp: reproject_steps_def Let_def mkdtemp_eq split: sum.splits if_splits)


lemma reproject_shapefile_success:
  assumes fr: "disk_fresh w"
    and s: "reproject_shapefile L zip_path target_crs w = (Inr (out, tin, tout), w')"
  shows "tin = (next_tmp w, [])"
    and "tout = (next_tmp w + 1, [])"
    and "out = (next_tmp w + 1, [''reprojected_'' @ remove_char CHR '':'' target_crs @ ''.zip''])"
    and "next_tmp w' = next_tmp w + 2"
    and "temp_file_store w' = temp_file_store w"
    and "stdout w' = stdout w"
    and "map_of (disk w') tin = Some Dir"
    and "map_of (disk w') tout = Some Dir"
    and "\<exists>ms. map_of (disk w') out = Some (File (Zip ms))"
    and "\<forall>q. fst q \<noteq> next_tmp w \<and> fst q \<noteq> next_tmp w + 1 \<longrightarrow>
           map_of (disk w') q = map_of (disk w) q"
    and "split_sep (''reprojected_'' @ remove_char CHR '':'' target_crs @ ''.zip'') =
           [''reprojected_'' @ remove_char CHR '':'' target_crs @ ''.zip'']"
proof -
  let ?n = "next_tmp w"
  let ?name = "''reprojected_'' @ remove_char CHR '':'' target_crs @ ''.zip''"
  obtain shp td w1 where c: "check_shapefile_completeness zip_path w = (Inr (shp, td), w1)"
    and st: "reproject_steps L shp td target_crs w1 = (Inr (out, tin, tout), w')"
    using s by (auto simp: reproject_shapefile_def split: sum.splits prod.splits if_splits)
  note cs = check_success[OF c]
  have td: "td = (?n, [])" by (rule cs(1))
  from reproject_steps_success[OF st] obtain fs1 files fs2 where
    md: "makedirs (disk w1) (join td ''reprojected'') = Inr fs1"
    and wf: "write_files fs1 (parent (join (join td ''reprojected'') (basename shp))) files = Inr fs2"
    and tin: "tin = td" and tout: "tout = (next_tmp w1, [])"
    and out: "out = join tout ?name"
    and wz: "write_file (put fs2 tout Dir) out
            (Zip (zip_members (dir_order w1) (put fs2 tout Dir) (join td ''reprojected'')))
          = Inr (disk w')"
    and n': "next_tmp w' = next_tmp w1 + 1"
    and st': "temp_file_store w' = temp_file_store w1" and so': "stdout w' = stdout w1"
    by blast
  have tout': "tout = (?n + 1, [])" using tout cs(4) by simp
  have fr': "\<And>q. map_of (disk w) q \<noteq> None \<Longrightarrow> fst q < ?n"
    using fr unfolding disk_fresh_iff by blast
  have f1: "map_of (disk w1) q = map_of (disk w) q" if "fst q \<noteq> ?n" for q
  proof -
    have "\<not> inside td q" using that td by (simp add: inside_def)
    from extractall_outside[OF cs(3) this] that td show ?thesis
      by (auto simp: map_of_put)
  qed
  have f2: "map_of fs2 q = map_of (disk w) q" if "fst q \<noteq> ?n" for q
  proof -
    have a: "fst q \<noteq> fst (parent (join (join td ''reprojected'') (basename shp)))"
      using that td by (simp add: parent_def join_def)
    have b: "fst q \<noteq> fst (join td ''reprojected'')"
      using that td by (simp add: join_def)
    from write_files_outside[OF wf a] makedirs_outside[OF md b] f1[OF that]
    show ?thesis by simp
  qed
  have none: "map_of fs2 (?n + 1, pre) = None" for pre
  proof -
    have "map_of fs2 (?n + 1, pre) = map_of (disk w) (?n + 1, pre)" by (rule f2) simp
    moreover have "map_of (disk w) (?n + 1, pre) = None"
    proof (rule ccontr)
      assume "map_of (disk w) (?n + 1, pre) \<noteq> None"
      from fr'[OF this] show False by simp
    qed
    ultimately show ?thesis by simp
  qed
  have pd: "isdir (put fs2 tout Dir) (parent out)"
    using wz by (auto simp: write_file_def split: if_splits)
  have "butlast (split_sep ?name) = []"
  proof (rule ccontr)
    assume ne: "butlast (split_sep ?name) \<noteq> []"
    have "parent out = (?n + 1, butlast (split_sep ?name))"
      using out tout' by (simp add: parent_def join_def)
    with pd ne none tout' show False by (simp add: isdir_def map_of_put)
  qed
  with split_sep_ne[of ?name] obtain x where "split_sep ?name = [x]"
    by (cases "split_sep ?name") (auto split: if_splits)
  with split_sep_single[of ?name x] show sp: "split_sep ?name = [?name]" by simp
  show o: "out = (?n + 1, [?name])" using out tout' sp by (simp add: join_def)
  show "tin = (?n, [])" using tin td by simp
  show "tout = (?n + 1, [])" by (rule tout')
  show "next_tmp w' = ?n + 2" using n' cs(4) by simp
  show "temp_file_store w' = temp_file_store w" using st' cs(5) by simp
  show "stdout w' = stdout w" using so' cs(6) by simp
  have d2: "map_of fs2 td = Some Dir"
    using write_files_keeps_dir[OF wf makedirs_keeps[OF md cs(2)]] .
  hence "map_of (put fs2 tout Dir) td = Some Dir" by (simp add: map_of_put)
  from write_file_keeps_dir[OF wz this] tin show "map_of (disk w') tin = Some Dir" by simp
  have "map_of (put fs2 tout Dir) tout = Some Dir" by (simp add: map_of_put)
  from write_file_keeps_dir[OF wz this] show "map_of (disk w') tout = Some Dir" .
  from write_file_result[OF wz, of out] show "\<exists>ms. map_of (disk w') out = Some (File (Zip ms))"
    by simp
  show "\<forall>q. fst q \<noteq> ?n \<and> fst q \<noteq> ?n + 1 \<longrightarrow> map_of (disk w') q = map_of (disk w) q"
  proof (intro allI impI)
    fix q :: fpath assume q: "fst q \<noteq> ?n \<and> fst q \<noteq> ?n + 1"
    hence "q \<noteq> out" "q \<noteq> tout" using o tout' by auto
    with write_file_result[OF wz, of q] f2[of q] q show "map_of (disk w') q = map_of (disk w) q"
      by (simp add: map_of_put)
  qed
qed


lemmas steps_defs =
  reproject_steps_def makedirs_def mkdtemp_def write_file_def rmtree_def inside_def listdir_def dir_names_def
  join_def basename_def parent_def splitext_root_def path_add_def splitext_def exists_def
  isdir_def zip_members_def remove_char_def Let_def

lemma uploaded_run:
  "fst (reproject_shapefile demo_lib (0, [''parcels.zip'']) ''EPSG:4326'' uploaded_world) =
     Inr ((2, [''reprojected_EPSG4326.zip'']), (1, []), (2, []))"
  apply (simp only: reproject_shapefile_def uploaded_check_run prod.case sum.case)
  apply (simp add: steps_defs demo_lib_def uploaded_world_def parcels_zip_def)
  done

text \<open>
  C7. When \<open>reproject_shapefile\<close> succeeds, the name of the output archive is
  \<open>reprojected_\<close>, then the target CRS without its colons, then \<open>.zip\<close>: it
  depends on the target CRS alone. The archive lies directly in the directory made by the
  second \<open>mkdtemp\<close>, which did not exist before the call and is neither the input
  scratch directory nor below it.
\<close>

theorem output_zip_name:
  assumes "disk_fresh w"
    and "reproject_shapefile L zip_path target_crs w =
           (Inr (output_zip_path, temp_dir, temp_output_dir), w')"
  shows "basename output_zip_path = ''reprojected_'' @ remove_char CHR '':'' target_crs @ ''.zip''
    \<and> output_zip_path = join temp_output_dir (basename output_zip_path)
    \<and> parent output_zip_path = temp_output_dir
    \<and> temp_dir = (next_tmp w, [])
    \<and> temp_output_dir = (next_tmp w + 1, [])
    \<and> \<not> exists (disk w) temp_output_dir
    \<and> \<not> inside temp_dir temp_output_dir
    \<and> isdir (disk w') temp_output_dir
    \<and> isfile (disk w') output_zip_path"
proof -
  note r = reproject_shapefile_success[OF assms]
  let ?name = "''reprojected_'' @ remove_char CHR '':'' target_crs @ ''.zip''"
  have b: "basename output_zip_path = ?name" using r(3) by (simp add: basename_def)
  have j: "output_zip_path = join temp_output_dir (basename output_zip_path)"
    using r(2,3,11) b by (simp add: join_def)
  have p: "parent output_zip_path = temp_output_dir"
    using r(2,3) by (simp add: parent_def)
  have e: "\<not> exists (disk w) temp_output_dir"
    using assms(1) r(2) unfolding disk_fresh_iff exists_def by fastforce
  have i: "\<not> inside temp_dir temp_output_dir"
    using r(1,2) by (simp add: inside_def)
  have d: "isdir (disk w') temp_output_dir" using r(8) by (simp add: isdir_def)
  have f: "isfile (disk w') output_zip_path" using r(9) by (auto simp: isfile_def)
  from b j p r(1) r(2) e i d f show ?thesis by blast
qed



theorem output_zip_name_witness:
  "disk_fresh uploaded_world
   \<and> fst (reproject_shapefile demo_lib (0, [''parcels.zip'']) ''EPSG:4326'' uploaded_world) =
       Inr ((2, [''reprojected_EPSG4326.zip'']), (1, []), (2, []))
   \<and> basename (2, [''reprojected_EPSG4326.zip'']) =
       ''reprojected_'' @ remove_char CHR '':'' ''EPSG:4326'' @ ''.zip''
   \<and> ''reprojected_'' @ remove_char CHR '':'' ''EPSG:4326'' @ ''.zip'' = ''reprojected_EPSG4326.zip''
   \<and> isfile (disk (snd (reproject_shapefile demo_lib (0, [''parcels.zip'']) ''EPSG:4326''
                            uploaded_world))) (2, [''reprojected_EPSG4326.zip''])"
proof -
  have f: "disk_fresh uploaded_world"
    by (simp add: disk_fresh_def uploaded_world_def)
  have r: "reproject_shapefile demo_lib (0, [''parcels.zip'']) ''EPSG:4326'' uploaded_world =
      (Inr ((2, [''reprojected_EPSG4326.zip'']), (1, []), (2, [])),
       snd (reproject_shapefile demo_lib (0, [''parcels.zip'']) ''EPSG:4326'' uploaded_world))"
    using uploaded_run by (metis prod.collapse)
  have n: "''reprojected_'' @ remove_char CHR '':'' ''EPSG:4326'' @ ''.zip'' = ''reprojected_EPSG4326.zip''"
    by (simp add: remove_char_def)
  from output_zip_name [OF f r] f uploaded_run n show ?thesis by blast
qed

subsection \<open>The upload handler\<close>

lemma reproject_api_200:
  assumes "reproject_api L request w = (Inr (Json 200 body), w')"
  shows "\<exists>file t fs2 out tin tout w3.
      files_file request = Some file \<and> form_target_crs request = Some t
      \<and> write_file (put (disk w) (next_tmp w, []) Dir)
            (join (next_tmp w, []) (secure_filename L (filename file))) (content file) = Inr fs2
      \<and> reproject_shapefile L (join (next_tmp w, []) (secure_filename L (filename file))) t
            (w\<lparr>next_tmp := next_tmp w + 1, disk := fs2\<rparr>) = (Inr (out, tin, tout), w3)
      \<and> body = [(''message'', ''Shapefile re-projected successfully''),
                 (''download_link'', host_url request @ ''download_file/'' @ basename out)]
      \<and> w' = w3\<lparr>temp_file_store := (temp_file_store w3)(basename out \<mapsto>
                  \<lparr>path = out, temp_dirs = [(next_tmp w, []), tin, tout]\<rparr>)\<rparr>"
  using assms
  by (auto simp: reproject_api_def Let_def mkdtemp_eq
      split: option.splits if_splits sum.splits prod.splits)


lemma reproject_api_success:
  assumes fr: "disk_fresh w"
    and s: "reproject_api L request w = (Inr (Json 200 body), w')"
  shows "\<exists>t. form_target_crs request = Some t
      \<and> body = [(''message'', ''Shapefile re-projected successfully''),
                 (''download_link'', host_url request @ ''download_file/''
                    @ ''reprojected_'' @ remove_char CHR '':'' t @ ''.zip'')]
      \<and> temp_file_store w' = (temp_file_store w)
            (''reprojected_'' @ remove_char CHR '':'' t @ ''.zip'' \<mapsto>
               \<lparr>path = (next_tmp w + 2, [''reprojected_'' @ remove_char CHR '':'' t @ ''.zip'']),
                temp_dirs = [(next_tmp w, []), (next_tmp w + 1, []), (next_tmp w + 2, [])]\<rparr>)"
    and "next_tmp w' = next_tmp w + 3"
    and "stdout w' = stdout w"
    and "map_of (disk w') (next_tmp w, []) = Some Dir"
    and "map_of (disk w') (next_tmp w + 1, []) = Some Dir"
    and "map_of (disk w') (next_tmp w + 2, []) = Some Dir"
    and "\<forall>q. fst q < next_tmp w \<longrightarrow> map_of (disk w') q = map_of (disk w) q"
    and "disk_fresh w'"
proof -
  let ?n = "next_tmp w"
  from reproject_api_200[OF s] obtain upl t fs2 out tin tout w3 where
    fu: "files_file request = Some upl"
    and t: "form_target_crs request = Some t"
    and wu: "write_file (put (disk w) (?n, []) Dir)
            (join (?n, []) (secure_filename L (filename upl))) (content upl) = Inr fs2"
    and rs: "reproject_shapefile L (join (?n, []) (secure_filename L (filename upl))) t
            (w\<lparr>next_tmp := ?n + 1, disk := fs2\<rparr>) = (Inr (out, tin, tout), w3)"
    and body: "body = [(''message'', ''Shapefile re-projected successfully''),
                 (''download_link'', host_url request @ ''download_file/'' @ basename out)]"
    and w': "w' = w3\<lparr>temp_file_store := (temp_file_store w3)(basename out \<mapsto>
                  \<lparr>path = out, temp_dirs = [(?n, []), tin, tout]\<rparr>)\<rparr>"
    by (elim exE conjE) (rule that; assumption)
  let ?w2 = "w\<lparr>next_tmp := ?n + 1, disk := fs2\<rparr>"
  let ?name = "''reprojected_'' @ remove_char CHR '':'' t @ ''.zip''"
  have fr0: "\<And>q. map_of (disk w) q \<noteq> None \<Longrightarrow> fst q < ?n"
    using fr unfolding disk_fresh_iff by blast
  have m2: "map_of fs2 q = (if q = join (?n, []) (secure_filename L (filename upl))
              then Some (File (content upl))
              else if q = (?n, []) then Some Dir else map_of (disk w) q)" for q
    using write_file_result[OF wu, of q] by (simp add: map_of_put)
  have fr2: "disk_fresh ?w2"
    unfolding disk_fresh_iff
  proof (intro allI impI)
    fix q :: fpath assume "map_of (disk ?w2) q \<noteq> None"
    hence "q = join (?n, []) (secure_filename L (filename upl)) \<or> q = (?n, [])
        \<or> map_of (disk w) q \<noteq> None"
      using m2[of q] by (auto split: if_splits)
    thus "fst q < next_tmp ?w2" using fr0[of q] by (auto simp: join_def)
  qed
  note r = reproject_shapefile_success[OF fr2 rs]
  have out: "out = (?n + 2, [?name])" using r(3) by simp
  have bn: "basename out = ?name" using out by (simp add: basename_def)
  have tin: "tin = (?n + 1, [])" using r(1) by simp
  have tout: "tout = (?n + 2, [])" using r(2) by simp
  show "\<exists>t. form_target_crs request = Some t
      \<and> body = [(''message'', ''Shapefile re-projected successfully''),
                 (''download_link'', host_url request @ ''download_file/''
                    @ ''reprojected_'' @ remove_char CHR '':'' t @ ''.zip'')]
      \<and> temp_file_store w' = (temp_file_store w)
            (''reprojected_'' @ remove_char CHR '':'' t @ ''.zip'' \<mapsto>
               \<lparr>path = (next_tmp w + 2, [''reprojected_'' @ remove_char CHR '':'' t @ ''.zip'']),
                temp_dirs = [(next_tmp w, []), (next_tmp w + 1, []), (next_tmp w + 2, [])]\<rparr>)"
    using t body w' r(5) out bn tin tout by simp
  show "next_tmp w' = ?n + 3" using w' r(4) by simp
  show "stdout w' = stdout w" using w' r(6) by simp
  have d3: "disk w' = disk w3" using w' by simp
  have fr3: "map_of (disk w3) q = map_of fs2 q" if "fst q \<noteq> ?n + 1" "fst q \<noteq> ?n + 2" for q
    using r(10) that by (cases q) simp
  show "map_of (disk w') (?n, []) = Some Dir"
    using fr3[of "(?n, [])"] m2[of "(?n, [])"] d3
      split_sep_ne[of "secure_filename L (filename upl)"]
    by (auto simp: join_def)
  show "map_of (disk w') (?n + 1, []) = Some Dir" using r(7) tin d3 by simp
  show "map_of (disk w') (?n + 2, []) = Some Dir" using r(8) tout d3 by simp
  show "\<forall>q. fst q < ?n \<longrightarrow> map_of (disk w') q = map_of (disk w) q"
  proof (intro allI impI)
    fix q :: fpath assume q: "fst q < ?n"
    hence "map_of (disk w3) q = map_of fs2 q" by (intro fr3) simp_all
    moreover have "map_of fs2 q = map_of (disk w) q"
      using m2[of q] q by (auto simp: join_def)
    ultimately show "map_of (disk w') q = map_of (disk w) q" using d3 by simp
  qed
  show "disk_fresh w'"
    unfolding disk_fresh_iff
  proof (intro allI impI)
    fix q :: fpath assume a: "map_of (disk w') q \<noteq> None"
    show "fst q < next_tmp w'"
    proof (cases "fst q = ?n + 1 \<or> fst q = ?n + 2")
      case True
      then show ?thesis using w' r(4) by auto
    next
      case False
      hence "map_of (disk w3) q = map_of fs2 q" by (intro fr3) simp_all
      with a d3 have "map_of (disk ?w2) q \<noteq> None" by simp
      with fr2 have "fst q < ?n + 1" unfolding disk_fresh_iff by fastforce
      then show ?thesis using w' r(4) by simp
    qed
  qed
qed



lemmas api_defs =
  reproject_api_def reproject_shapefile_def reproject_steps_def check_shapefile_completeness_def
  check_extracted_def extractall_def extract_member_def member_path_def mkdtemp_def
  write_file_def makedirs_def rmtree_def inside_def listdir_def dir_names_def join_def basename_def parent_def
  path_endswith_def splitext_root_def path_add_def splitext_def exists_def isdir_def
  is_zipfile_def zip_members_def endswith_def lower_def char_lower_def remove_char_def Let_def

lemma parcels_run:
  "reproject_api demo_lib parcels_request empty_world =
     (Inr (Json 200 [(''message'', ''Shapefile re-projected successfully''),
                     (''download_link'', ''http://host/download_file/reprojected_EPSG3857.zip'')]),
      parcels_world)"
  by (simp add: api_defs demo_lib_def parcels_request_def empty_world_def parcels_zip_def
      parcels_world_def numeral_2_eq_2 numeral_3_eq_3)

lemma roads_run:
  "fst (reproject_api demo_lib roads_request parcels_world) =
     Inr (Json 200 [(''message'', ''Shapefile re-projected successfully''),
                    (''download_link'', ''http://host/download_file/reprojected_EPSG3857.zip'')])"
  by (simp add: api_defs demo_lib_def roads_request_def parcels_world_def parcels_zip_def)

text \<open>
  C9. The identifier under which a result is registered is computed from the target CRS
  alone. Two successful uploads with the same target CRS, whatever their archives and
  file names, get download links with the same identifier; the second registration
  replaces the record of the first; and the three scratch directories of the first
  record are then still on disk while no record of \<open>temp_file_store\<close> refers to
  them. The hypotheses on the first state hold in every state the program reaches: the
  paths on disk and the directories of the records were handed out by \<open>mkdtemp\<close>
  before.
\<close>

theorem same_crs_same_identifier:
  assumes "disk_fresh w0"
    and "\<forall>fid fd. temp_file_store w0 fid = Some fd \<longrightarrow>
           (\<forall>d \<in> set (temp_dirs fd). fst d < next_tmp w0)"
    and "reproject_api L request1 w0 = (Inr (Json 200 body1), w1)"
    and "reproject_api L request2 w1 = (Inr (Json 200 body2), w2)"
    and "form_target_crs request1 = Some t" and "form_target_crs request2 = Some t"
  shows "body1 = [(''message'', ''Shapefile re-projected successfully''),
                  (''download_link'', host_url request1 @ ''download_file/''
                     @ ''reprojected_'' @ remove_char CHR '':'' t @ ''.zip'')]
    \<and> body2 = [(''message'', ''Shapefile re-projected successfully''),
                  (''download_link'', host_url request2 @ ''download_file/''
                     @ ''reprojected_'' @ remove_char CHR '':'' t @ ''.zip'')]
    \<and> temp_file_store w1 (''reprojected_'' @ remove_char CHR '':'' t @ ''.zip'') =
        Some \<lparr>path = (next_tmp w0 + 2, [''reprojected_'' @ remove_char CHR '':'' t @ ''.zip'']),
              temp_dirs = [(next_tmp w0, []), (next_tmp w0 + 1, []), (next_tmp w0 + 2, [])]\<rparr>
    \<and> temp_file_store w2 (''reprojected_'' @ remove_char CHR '':'' t @ ''.zip'') =
        Some \<lparr>path = (next_tmp w0 + 5, [''reprojected_'' @ remove_char CHR '':'' t @ ''.zip'']),
              temp_dirs = [(next_tmp w0 + 3, []), (next_tmp w0 + 4, []), (next_tmp w0 + 5, [])]\<rparr>
    \<and> (\<forall>d \<in> {(next_tmp w0, []), (next_tmp w0 + 1, []), (next_tmp w0 + 2, [])}.
          isdir (disk w2) d
          \<and> (\<forall>fid fd. temp_file_store w2 fid = Some fd \<longrightarrow> d \<notin> set (temp_dirs fd)))"
proof -
  let ?n = "next_tmp w0"
  let ?id = "''reprojected_'' @ remove_char CHR '':'' t @ ''.zip''"
  note a = reproject_api_success[OF assms(1) assms(3)]
  note b = reproject_api_success[OF a(8) assms(4)]
  have n1: "next_tmp w1 = ?n + 3" by (rule a(2))
  have b1: "body1 = [(''message'', ''Shapefile re-projected successfully''),
                  (''download_link'', host_url request1 @ ''download_file/'' @ ?id)]"
    and s1: "temp_file_store w1 = (temp_file_store w0)(?id \<mapsto>
              \<lparr>path = (?n + 2, [?id]), temp_dirs = [(?n, []), (?n + 1, []), (?n + 2, [])]\<rparr>)"
    using a(1) assms(5) by auto
  have b2: "body2 = [(''message'', ''Shapefile re-projected successfully''),
                  (''download_link'', host_url request2 @ ''download_file/'' @ ?id)]"
    and s2: "temp_file_store w2 = (temp_file_store w1)(?id \<mapsto>
              \<lparr>path = (?n + 5, [?id]), temp_dirs = [(?n + 3, []), (?n + 4, []), (?n + 5, [])]\<rparr>)"
    using b(1) assms(6) n1 by (auto simp: add.assoc)
  have keep: "map_of (disk w2) q = map_of (disk w1) q" if "fst q < ?n + 3" for q
    using b(7) that n1 by (cases q) simp
  have dirs: "isdir (disk w2) d" if "d \<in> {(?n, []), (?n + 1, []), (?n + 2, [])}" for d
    using that a(4,5,6) keep[of d] by (auto simp: isdir_def)
  have unref: "d \<notin> set (temp_dirs fd)"
    if d: "d \<in> {(?n, []), (?n + 1, []), (?n + 2, [])}" and f: "temp_file_store w2 fid = Some fd"
    for d fid fd
  proof (cases "fid = ?id")
    case True
    with f s2 have "temp_dirs fd = [(?n + 3, []), (?n + 4, []), (?n + 5, [])]" by auto
    with d show ?thesis by auto
  next
    case False
    with f s2 s1 have "temp_file_store w0 fid = Some fd" by (auto split: if_splits)
    with assms(2) have "\<forall>x \<in> set (temp_dirs fd). fst x < ?n" by blast
    with d show ?thesis by auto
  qed
  from b1 b2 s1 s2 dirs unref show ?thesis by (simp del: insert_iff)
qed



theorem same_crs_same_identifier_witness:
  "disk_fresh empty_world
   \<and> reproject_api demo_lib parcels_request empty_world =
       (Inr (Json 200 [(''message'', ''Shapefile re-projected successfully''),
                       (''download_link'', ''http://host/download_file/reprojected_EPSG3857.zip'')]),
        parcels_world)
   \<and> fst (reproject_api demo_lib roads_request parcels_world) =
       Inr (Json 200 [(''message'', ''Shapefile re-projected successfully''),
                      (''download_link'', ''http://host/download_file/reprojected_EPSG3857.zip'')])
   \<and> temp_file_store parcels_world ''reprojected_EPSG3857.zip'' =
       Some \<lparr>path = (2, [''reprojected_EPSG3857.zip'']), temp_dirs = [(0, []), (1, []), (2, [])]\<rparr>
   \<and> temp_file_store (snd (reproject_api demo_lib roads_request parcels_world))
         ''reprojected_EPSG3857.zip'' =
       Some \<lparr>path = (5, [''reprojected_EPSG3857.zip'']), temp_dirs = [(3, []), (4, []), (5, [])]\<rparr>
   \<and> isdir (disk (snd (reproject_api demo_lib roads_request parcels_world))) (0, [])
   \<and> isdir (disk (snd (reproject_api demo_lib roads_request parcels_world))) (1, [])
   \<and> isdir (disk (snd (reproject_api demo_lib roads_request parcels_world))) (2, [])"
proof -
  let ?w2 = "snd (reproject_api demo_lib roads_request parcels_world)"
  have f: "disk_fresh empty_world" by (simp add: disk_fresh_def empty_world_def)
  have s: "\<forall>fid fd. temp_file_store empty_world fid = Some fd \<longrightarrow>
           (\<forall>d \<in> set (temp_dirs fd). fst d < next_tmp empty_world)"
    by (simp add: empty_world_def)
  have r2: "reproject_api demo_lib roads_request parcels_world =
      (Inr (Json 200 [(''message'', ''Shapefile re-projected successfully''),
                      (''download_link'', ''http://host/download_file/reprojected_EPSG3857.zip'')]),
       ?w2)"
    using roads_run by (metis prod.collapse)
  have t1: "form_target_crs parcels_request = Some ''EPSG:3857''"
    by (simp add: parcels_request_def)
  have t2: "form_target_crs roads_request = Some ''EPSG:3857''"
    by (simp add: roads_request_def)
  have n: "next_tmp empty_world = 0" by (simp add: empty_world_def)
  have i: "''reprojected_'' @ remove_char CHR '':'' ''EPSG:3857'' @ ''.zip'' = ''reprojected_EPSG3857.zip''"
    by (simp add: remove_char_def)
  note c = same_crs_same_identifier [OF f s parcels_run r2 t1 t2]
  note c3 = c [THEN conjunct2, THEN conjunct2, THEN conjunct1, unfolded n i]
  note c4 = c [THEN conjunct2, THEN conjunct2, THEN conjunct2, THEN conjunct1, unfolded n i]
  note c5 = c [THEN conjunct2, THEN conjunct2, THEN conjunct2, THEN conjunct2, unfolded n]
  have k3: "temp_file_store parcels_world ''reprojected_EPSG3857.zip'' =
       Some \<lparr>path = (2, [''reprojected_EPSG3857.zip'']), temp_dirs = [(0, []), (1, []), (2, [])]\<rparr>"
    using c3 by simp
  have k4: "temp_file_store ?w2 ''reprojected_EPSG3857.zip'' =
       Some \<lparr>path = (5, [''reprojected_EPSG3857.zip'']), temp_dirs = [(3, []), (4, []), (5, [])]\<rparr>"
    using c4 by simp
  have k5: "isdir (disk ?w2) (0, [])" "isdir (disk ?w2) (1, [])" "isdir (disk ?w2) (2, [])"
    using c5 by (simp_all add: numeral_2_eq_2)
  from f parcels_run roads_run k3 k4 k5 show ?thesis by (intro conjI)
qed

end
